theory Spec2Isabelle
  imports Complex_Main "HOL-Library.Word"
begin

text \<open>
  A shallow embedding of the ResNet builder of \<^verbatim>\<open>models/resnet/resnet.hpp\<close>: the
  output-size formula, the convolution block, the two residual blocks and the stage
  builder, as state-passing functions on the builder's data members, with the
  operations that C++ leaves undefined returned as faults. The layer graph is a tree of
  nodes; the numerical work of the external framework is not modelled.
\<close>

section \<open>Machine arithmetic of the builder\<close>

text \<open>
  Every size in \<^verbatim>\<open>resnet.hpp\<close> is a \<^verbatim>\<open>size_t\<close>: an unsigned 64-bit integer whose
  \<open>+\<close>, \<open>-\<close> and \<open>*\<close> wrap around modulo \<open>2 ^ 64\<close>.
\<close>

type_synonym size_t = "64 word"

text \<open>
  Two operations of the source have no defined result on some inputs: the unsigned
  division by a zero stride, and the conversion of a floating-point value that does not
  fit the integer type it is converted to. The model returns them as faults.
\<close>

datatype fault = DivisionByZero | ConversionOutOfRange

text \<open>
  \<^verbatim>\<open>ConvOutSize\<close> passes its integer quotient to \<^verbatim>\<open>std::floor\<close>, which converts it to
  \<^verbatim>\<open>double\<close>, adds \<^verbatim>\<open>1\<close> in \<^verbatim>\<open>double\<close>, and converts the sum back to \<^verbatim>\<open>size_t\<close> on return.
  Every \<^verbatim>\<open>double\<close> on that path is a non-negative whole number, so the model stands for it
  by the natural number it denotes. \<open>to_double n\<close> is the binary64 value nearest to \<open>n\<close>,
  ties to the even significand (the IEEE 754 default rounding): numbers below \<open>2 ^ 53\<close>
  are exact, a larger one keeps its 53 leading bits.
\<close>

fun bit_length :: "nat \<Rightarrow> nat" where
  "bit_length n = (if n = 0 then 0 else Suc (bit_length (n div 2)))"

declare bit_length.simps [simp del]

definition to_double :: "nat \<Rightarrow> nat" where
  "to_double n =
     (if n < 2 ^ 53 then n
      else let u = 2 ^ (bit_length n - 53); m = n div u; r = n mod u
           in if 2 * r < u \<or> (2 * r = u \<and> even m) then m * u else (m + 1) * u)"

text \<open>The conversion of a whole \<^verbatim>\<open>double\<close> back to \<^verbatim>\<open>size_t\<close>: undefined from \<open>2 ^ 64\<close> on.\<close>

definition to_size_t :: "nat \<Rightarrow> fault + size_t" where
  "to_size_t d = (if d < 2 ^ 64 then Inr (of_nat d) else Inl ConversionOutOfRange)"

text \<open>
  \<^verbatim>\<open>return std::floor((size - k + 2 * padding) / s) + 1;\<close>
  The difference and the quotient are computed in \<^verbatim>\<open>size_t\<close>; \<^verbatim>\<open>std::floor\<close> of a whole
  number is that number.
\<close>

definition ConvOutSize :: "size_t \<Rightarrow> size_t \<Rightarrow> size_t \<Rightarrow> size_t \<Rightarrow> fault + size_t" where
  "ConvOutSize sz k s padding =
     (if s = 0 then Inl DivisionByZero
      else to_size_t (to_double (to_double (unat ((sz - k + 2 * padding) div s)) + 1)))"

section \<open>Layers and the builder's state\<close>

text \<open>
  The nodes of the external framework that the header creates. \<open>Convolution\<close> takes its
  arguments in the order of the framework's constructor: input maps, output maps, kernel
  width and height, stride width and height, padding width and height, input width and
  height. \<open>BatchNorm\<close> is always created with the epsilon \<^verbatim>\<open>1e-5\<close>; \<open>AddMerge\<close> with the two
  flags the header passes.
\<close>

datatype layer =
    Convolution size_t size_t size_t size_t size_t size_t size_t size_t size_t size_t
  | BatchNorm size_t
  | ReLULayer
  | IdentityLayer
  | Sequential "layer list"
  | AddMerge bool bool "layer list"
  | StemPooling
  | GlobalAveragePooling
  | Linear size_t
  | OutputActivation

text \<open>
  The data members of class \<^verbatim>\<open>ResNet\<close>. \<open>resNet\<close> is the top-level sequence of the network.
\<close>

record ResNet =
  resNet :: "layer list"
  inputChannel :: size_t
  inputWidth :: size_t
  inputHeight :: size_t
  numClasses :: size_t
  downSampleInputWidth :: size_t
  downSampleInputHeight :: size_t
  downSampleInSize :: size_t
  numBlockArray :: "size_t list"
  builderBlock :: string
  preTrainedPath :: string

text \<open>The two expansion members keep their initialisers: the header never assigns them.\<close>

definition basicBlockExpansion :: size_t where
  "basicBlockExpansion = 1"

definition bottleNeckExpansion :: size_t where
  "bottleNeckExpansion = 4"

text \<open>
  The static table \<^verbatim>\<open>ResNetConfig\<close>: an outer map from the version to an inner map with
  one entry, from the block kind to the four block counts.
\<close>

definition ResNetConfig :: "size_t \<rightharpoonup> (string \<times> size_t list) list" where
  "ResNetConfig = map_of
     [(18, [(''basicblock'', [2, 2, 2, 2])]),
      (34, [(''basicblock'', [3, 4, 6, 3])]),
      (50, [(''bottleneck'', [3, 4, 6, 3])]),
      (101, [(''bottleneck'', [3, 4, 23, 3])]),
      (152, [(''bottleneck'', [3, 8, 36, 3])])]"

section \<open>ConvolutionBlock\<close>

text \<open>
  \<open>baseLayer\<close> is the container the block is appended to; the model returns it extended,
  with the updated builder. The informational log lines are not modelled.
\<close>

definition ConvolutionBlock ::
  "layer list \<Rightarrow> size_t \<Rightarrow> size_t \<Rightarrow> size_t \<Rightarrow> size_t \<Rightarrow> size_t \<Rightarrow> size_t \<Rightarrow> size_t \<Rightarrow> size_t \<Rightarrow>
   bool \<Rightarrow> size_t \<Rightarrow> size_t \<Rightarrow> ResNet \<Rightarrow> fault + (layer list \<times> ResNet)" where
  "ConvolutionBlock baseLayer inSize outSize strideWidth strideHeight kernelWidth kernelHeight
     padW padH downSample dsInputWidth dsInputHeight st =
     (let st1 = (if downSample
                 then st\<lparr>inputWidth := dsInputWidth, inputHeight := dsInputHeight\<rparr>
                 else st);
          tempBaseLayer = [Convolution inSize outSize kernelWidth kernelHeight strideWidth
                             strideHeight padW padH (inputWidth st1) (inputHeight st1)]
      in case ConvOutSize (inputWidth st1) kernelWidth strideWidth padW of
           Inl f \<Rightarrow> Inl f
         | Inr w \<Rightarrow>
             (case ConvOutSize (inputHeight st1) kernelHeight strideHeight padH of
                Inl f \<Rightarrow> Inl f
              | Inr h \<Rightarrow>
                  Inr (baseLayer @ [Sequential (tempBaseLayer @ [BatchNorm outSize])],
                       st1\<lparr>inputWidth := w, inputHeight := h\<rparr>)))"

section \<open>BasicBlock\<close>

text \<open>
  The main path of a basic block: two convolution blocks around an activation, collected
  in \<^verbatim>\<open>sequentialBlock\<close>.
\<close>

definition BasicBlock_main ::
  "size_t \<Rightarrow> size_t \<Rightarrow> size_t \<Rightarrow> size_t \<Rightarrow> ResNet \<Rightarrow> fault + (layer list \<times> ResNet)" where
  "BasicBlock_main inSize outSize strideWidth strideHeight st =
     (case ConvolutionBlock [] inSize outSize strideWidth strideHeight 3 3 1 1 False 0 0 st of
        Inl f \<Rightarrow> Inl f
      | Inr (sequentialBlock, st1) \<Rightarrow>
          ConvolutionBlock (sequentialBlock @ [ReLULayer]) outSize outSize 1 1 3 3 1 1
            False 0 0 st1)"

text \<open>
  The shortcut, added to \<^verbatim>\<open>resBlock\<close> after the main path: the projection reads the
  snapshot of the shape, the identity leaves the builder as it is. Both block kinds
  have this code, with their own number of output maps.
\<close>

definition shortcut ::
  "layer list \<Rightarrow> size_t \<Rightarrow> size_t \<Rightarrow> size_t \<Rightarrow> size_t \<Rightarrow> bool \<Rightarrow> ResNet \<Rightarrow>
   fault + (layer list \<times> ResNet)" where
  "shortcut resBlock inSize outSize strideWidth strideHeight downSample st =
     (if downSample
      then ConvolutionBlock resBlock inSize outSize strideWidth strideHeight 1 1 0 0 True
             (downSampleInputWidth st) (downSampleInputHeight st) st
      else Inr (resBlock @ [IdentityLayer], st))"

definition BasicBlock ::
  "size_t \<Rightarrow> size_t \<Rightarrow> size_t \<Rightarrow> size_t \<Rightarrow> bool \<Rightarrow> ResNet \<Rightarrow> fault + ResNet" where
  "BasicBlock inSize outSize strideWidth strideHeight downSample st =
     (let st0 = st\<lparr>downSampleInputWidth := inputWidth st,
                   downSampleInputHeight := inputHeight st\<rparr>
      in case BasicBlock_main inSize outSize strideWidth strideHeight st0 of
           Inl f \<Rightarrow> Inl f
         | Inr (sequentialBlock, st2) \<Rightarrow>
             (case shortcut [Sequential sequentialBlock] inSize outSize strideWidth
                     strideHeight downSample st2 of
                Inl f \<Rightarrow> Inl f
              | Inr (resBlock, st3) \<Rightarrow>
                  Inr (st3\<lparr>resNet := resNet st3 @
                         [Sequential [AddMerge True True resBlock, ReLULayer]]\<rparr>)))"

section \<open>BottleNeck\<close>

text \<open>
  \<^verbatim>\<open>size_t width = int((baseWidth / 64.0) * outSize) * groups;\<close>
  The product is formed in \<^verbatim>\<open>double\<close> and truncated to a 32-bit \<^verbatim>\<open>int\<close>, which is defined
  only below \<open>2 ^ 31\<close>. Below that bound the \<^verbatim>\<open>double\<close> product is exact (it has at most 37
  significant bits), so the \<^verbatim>\<open>int\<close> is the whole part of \<open>baseWidth * outSize / 64\<close>; from the
  bound on, the conversion is undefined, also when an operand was rounded on its way to
  \<^verbatim>\<open>double\<close>. The multiplication by \<open>groups\<close> is done in \<^verbatim>\<open>size_t\<close>.
\<close>

definition bottleNeckWidth :: "size_t \<Rightarrow> size_t \<Rightarrow> size_t \<Rightarrow> fault + size_t" where
  "bottleNeckWidth baseWidth outSize groups =
     (let t = (unat baseWidth * unat outSize) div 64
      in if t < 2 ^ 31 then Inr (of_nat t * groups) else Inl ConversionOutOfRange)"

definition BottleNeck_main ::
  "size_t \<Rightarrow> size_t \<Rightarrow> size_t \<Rightarrow> size_t \<Rightarrow> size_t \<Rightarrow> ResNet \<Rightarrow> fault + (layer list \<times> ResNet)" where
  "BottleNeck_main inSize width outSize strideWidth strideHeight st =
     (case ConvolutionBlock [] inSize width 1 1 1 1 0 0 False 0 0 st of
        Inl f \<Rightarrow> Inl f
      | Inr (sequentialBlock, st1) \<Rightarrow>
          (case ConvolutionBlock (sequentialBlock @ [ReLULayer]) width width strideWidth
                  strideHeight 3 3 1 1 False 0 0 st1 of
             Inl f \<Rightarrow> Inl f
           | Inr (sequentialBlock2, st2) \<Rightarrow>
               ConvolutionBlock (sequentialBlock2 @ [ReLULayer]) width
                 (outSize * bottleNeckExpansion) 1 1 1 1 0 0 False 0 0 st2))"

definition BottleNeck ::
  "size_t \<Rightarrow> size_t \<Rightarrow> size_t \<Rightarrow> size_t \<Rightarrow> bool \<Rightarrow> size_t \<Rightarrow> size_t \<Rightarrow> ResNet \<Rightarrow> fault + ResNet" where
  "BottleNeck inSize outSize strideWidth strideHeight downSample baseWidth groups st =
     (let st0 = st\<lparr>downSampleInputWidth := inputWidth st,
                   downSampleInputHeight := inputHeight st\<rparr>
      in case bottleNeckWidth baseWidth outSize groups of
           Inl f \<Rightarrow> Inl f
         | Inr width \<Rightarrow>
             (case BottleNeck_main inSize width outSize strideWidth strideHeight st0 of
                Inl f \<Rightarrow> Inl f
              | Inr (sequentialBlock, st3) \<Rightarrow>
                  (case shortcut [Sequential sequentialBlock] inSize
                          (outSize * bottleNeckExpansion) strideWidth strideHeight
                          downSample st3 of
                     Inl f \<Rightarrow> Inl f
                   | Inr (resBlock, st4) \<Rightarrow>
                       Inr (st4\<lparr>resNet := resNet st4 @
                              [Sequential [AddMerge True True resBlock, ReLULayer]]\<rparr>))))"

section \<open>MakeLayer\<close>

text \<open>
  \<^verbatim>\<open>for (size_t i = 1; i != numBlocks; ++i) body;\<close>
  The counter is a \<^verbatim>\<open>size_t\<close> compared with \<open>\<noteq>\<close>, so the loop also ends when it starts above
  \<open>numBlocks\<close>: after the counter has wrapped around. A fault in the body ends it.
\<close>

function for_blocks ::
  "(ResNet \<Rightarrow> fault + ResNet) \<Rightarrow> size_t \<Rightarrow> size_t \<Rightarrow> ResNet \<Rightarrow> fault + ResNet" where
  "for_blocks body i numBlocks st =
     (if i \<noteq> numBlocks
      then (case body st of
              Inl f \<Rightarrow> Inl f
            | Inr st' \<Rightarrow> for_blocks body (i + 1) numBlocks st')
      else Inr st)"
  by pat_completeness auto
termination
proof (relation "measure (\<lambda>(body, i, numBlocks, st). unat (numBlocks - i))")
  show "wf (measure (\<lambda>(body, i, numBlocks, st). unat (numBlocks - i)))"
    by simp
next
  fix body :: "ResNet \<Rightarrow> fault + ResNet" and i numBlocks :: size_t and st x2 :: ResNet
  assume "i \<noteq> numBlocks"
  then have "numBlocks - i \<noteq> 0"
    by simp
  then have lt: "unat (numBlocks - i - 1) < unat (numBlocks - i)"
    by (simp add: unat_minus_one unat_gt_0)
  have eq: "numBlocks - (i + 1) = numBlocks - i - 1"
    by simp
  have "unat (numBlocks - (i + 1)) < unat (numBlocks - i)"
    unfolding eq by (rule lt)
  then show "((body, i + 1, numBlocks, x2), (body, i, numBlocks, st))
      \<in> measure (\<lambda>(body, i, numBlocks, st). unat (numBlocks - i))"
    by simp
qed

declare for_blocks.simps [simp del]

definition MakeLayer :: "string \<Rightarrow> size_t \<Rightarrow> size_t \<Rightarrow> size_t \<Rightarrow> ResNet \<Rightarrow> fault + ResNet" where
  "MakeLayer block outSize numBlocks stride st =
     (if block = ''basicblock''
      then
        (let downSample =
               (stride \<noteq> 1 \<or> downSampleInSize st \<noteq> outSize * basicBlockExpansion)
         in case BasicBlock (downSampleInSize st) (outSize * basicBlockExpansion) stride
                   stride downSample st of
              Inl f \<Rightarrow> Inl f
            | Inr st1 \<Rightarrow>
                for_blocks (\<lambda>s. BasicBlock (downSampleInSize s) outSize 1 1 False s) 1
                  numBlocks (st1\<lparr>downSampleInSize := outSize * basicBlockExpansion\<rparr>))
      else
        (let downSample =
               (stride \<noteq> 1 \<or> downSampleInSize st \<noteq> outSize * bottleNeckExpansion)
         in case BottleNeck (downSampleInSize st) outSize stride stride downSample 64 1 st of
              Inl f \<Rightarrow> Inl f
            | Inr st1 \<Rightarrow>
                for_blocks (\<lambda>s. BottleNeck (downSampleInSize s) outSize 1 1 False 64 1 s) 1
                  numBlocks (st1\<lparr>downSampleInSize := outSize * bottleNeckExpansion\<rparr>)))"

text \<open>
  The specification's reading of the loop, to compare \<open>for_blocks\<close> with: the body is
  run a given number of times, and a fault ends the run.
\<close>

fun repeat_blocks :: "nat \<Rightarrow> (ResNet \<Rightarrow> fault + ResNet) \<Rightarrow> ResNet \<Rightarrow> fault + ResNet" where
  "repeat_blocks 0 body st = Inr st"
| "repeat_blocks (Suc n) body st =
     (case body st of Inl f \<Rightarrow> Inl f | Inr st' \<Rightarrow> repeat_blocks n body st')"

section \<open>The constructor\<close>

text \<open>
  The header declares the constructor; its body is in \<^verbatim>\<open>resnet_impl.hpp\<close>, which is not
  among the sources. The definitions of this section follow the specification's
  description of the top-level orchestration, and call the header's \<open>ConvOutSize\<close> and
  \<open>MakeLayer\<close>.
\<close>

text \<open>
  Modelled from the spec: the failures of the constructor, whose body is missing. The
  specification names the first two; the third carries a fault of the header's code.
\<close>

datatype error = UnsupportedVersionError | InvalidConfigurationError | UndefinedBehaviour fault

text \<open>
  Modelled from the spec: the five supported versions that the missing constructor body
  validates against.
\<close>

definition supportedVersions :: "size_t list" where
  "supportedVersions = [18, 34, 50, 101, 152]"

text \<open>
  Modelled from the spec: the builder as the missing constructor body starts from it,
  before any node is emitted. The shape state is
  initialised from the inputs and the tracked in-channel count is 64, the header's
  initialiser. The two snapshot members have no initialiser; they are written by every
  block before they are read, and start at 0 here.
\<close>

definition initial :: "size_t \<Rightarrow> size_t \<Rightarrow> size_t \<Rightarrow> size_t \<Rightarrow> ResNet" where
  "initial channels width height classes =
     \<lparr>resNet = [], inputChannel = channels, inputWidth = width, inputHeight = height,
      numClasses = classes, downSampleInputWidth = 0, downSampleInputHeight = 0,
      downSampleInSize = 64, numBlockArray = [], builderBlock = [], preTrainedPath = []\<rparr>"

text \<open>
  Modelled from the spec: the stem that the missing constructor body emits, one 7 x 7
  stride-2 convolution from 3 to 64 channels,
  a normalisation, an activation and a spatial pooling. The specification gives neither
  the padding of the convolution nor the pooling's effect on the shape: both are
  parameters, \<open>stemPad\<close> and \<open>pool\<close>.
\<close>

definition stem :: "size_t \<Rightarrow> (size_t \<Rightarrow> size_t) \<Rightarrow> ResNet \<Rightarrow> fault + ResNet" where
  "stem stemPad pool st =
     (case ConvOutSize (inputWidth st) 7 2 stemPad of
        Inl f \<Rightarrow> Inl f
      | Inr w \<Rightarrow>
          (case ConvOutSize (inputHeight st) 7 2 stemPad of
             Inl f \<Rightarrow> Inl f
           | Inr h \<Rightarrow>
               Inr (st\<lparr>resNet := resNet st @
                          [Convolution 3 64 7 7 2 2 stemPad stemPad (inputWidth st)
                             (inputHeight st),
                           BatchNorm 64, ReLULayer, StemPooling],
                        inputWidth := pool w, inputHeight := pool h\<rparr>)))"

text \<open>
  Modelled from the spec: the four stages that the missing constructor body drives, with
  the output-channel bases 64, 128, 256, 512, the strides 1, 2, 2, 2, and the repeat
  counts of the version's table row.
\<close>

definition stages :: "string \<Rightarrow> size_t list \<Rightarrow> ResNet \<Rightarrow> fault + ResNet" where
  "stages block counts st =
     (case MakeLayer block 64 (counts ! 0) 1 st of
        Inl f \<Rightarrow> Inl f
      | Inr s1 \<Rightarrow>
          (case MakeLayer block 128 (counts ! 1) 2 s1 of
             Inl f \<Rightarrow> Inl f
           | Inr s2 \<Rightarrow>
               (case MakeLayer block 256 (counts ! 2) 2 s2 of
                  Inl f \<Rightarrow> Inl f
                | Inr s3 \<Rightarrow> MakeLayer block 512 (counts ! 3) 2 s3)))"

text \<open>
  Modelled from the spec: the classification head of the missing constructor body, a
  global average pooling, a
  fully-connected projection to \<open>numClasses\<close> outputs and the final activation of the
  output-layer policy, appended when \<open>includeTop\<close> is set.
\<close>

definition head :: "bool \<Rightarrow> ResNet \<Rightarrow> ResNet" where
  "head includeTop st =
     (if includeTop
      then st\<lparr>resNet := resNet st @
                 [GlobalAveragePooling, Linear (numClasses st), OutputActivation]\<rparr>
      else st)"

text \<open>
  Modelled from the spec: the constructor \<^verbatim>\<open>ResNet::ResNet\<close>, whose body is missing. Both
  validations come first, the version's before the configuration's; a failure carries
  the nodes emitted so far. The row is read from the header's table \<open>ResNetConfig\<close>.
\<close>

definition ResNet_ctor ::
  "size_t \<Rightarrow> size_t \<Rightarrow> (size_t \<Rightarrow> size_t) \<Rightarrow> size_t \<Rightarrow> size_t \<Rightarrow> size_t \<Rightarrow> bool \<Rightarrow> bool \<Rightarrow>
   size_t \<Rightarrow> (error \<times> layer list) + ResNet" where
  "ResNet_ctor version stemPad pool channels width height includeTop preTrained classes =
     (let st0 = initial channels width height classes
      in if version \<notin> set supportedVersions
         then Inl (UnsupportedVersionError, resNet st0)
         else if preTrained \<and> \<not> includeTop
         then Inl (InvalidConfigurationError, resNet st0)
         else
           (case stem stemPad pool st0 of
              Inl f \<Rightarrow> Inl (UndefinedBehaviour f, resNet st0)
            | Inr st1 \<Rightarrow>
                (case ResNetConfig version of
                   Some ((block, counts) # rest) \<Rightarrow>
                     (case stages block counts
                             (st1\<lparr>builderBlock := block, numBlockArray := counts\<rparr>) of
                        Inl f \<Rightarrow> Inl (UndefinedBehaviour f, resNet st1)
                      | Inr st2 \<Rightarrow> Inr (head includeTop st2))
                 | _ \<Rightarrow> Inl (UnsupportedVersionError, resNet st1))))"

section \<open>Exact range of the output-size formula\<close>

lemma to_double_exact: "n < 2 ^ 53 \<Longrightarrow> to_double n = n"
  by (simp add: to_double_def)

lemma to_double_2_53: "to_double (2 ^ 53) = 2 ^ 53"
  by (simp add: to_double_def bit_length.simps Let_def)

lemma to_double_succ_exact:
  assumes "n < 2 ^ 53"
  shows "to_double (to_double n + 1) = n + 1"
proof (cases "n + 1 < 2 ^ 53")
  case True
  then show ?thesis using assms by (simp add: to_double_exact)
next
  case False
  with assms have "n + 1 = 2 ^ 53" by simp
  then show ?thesis using assms to_double_2_53 by (simp add: to_double_exact)
qed

lemma ConvOutSize_exact:
  assumes "s \<noteq> 0" and "unat ((sz - k + 2 * padding) div s) < 2 ^ 53"
  shows "ConvOutSize sz k s padding = Inr ((sz - k + 2 * padding) div s + 1)"
proof -
  let ?q = "(sz - k + 2 * padding) div s"
  have "to_double (to_double (unat ?q) + 1) = unat ?q + 1"
    using assms(2) by (rule to_double_succ_exact)
  moreover have "unat ?q + 1 < 2 ^ 64"
    using assms(2) by simp
  moreover have "(of_nat (unat ?q + 1) :: size_t) = ?q + 1"
    by simp
  ultimately show ?thesis
    using assms(1) by (simp add: ConvOutSize_def to_size_t_def)
qed

lemma unat_conv_quotient:
  assumes "unat k \<le> unat sz + 2 * unat padding" and "unat sz + 2 * unat padding < 2 ^ 64"
  shows "unat (((sz::size_t) - k + 2 * padding) div s) = (unat sz + 2 * unat padding - unat k) div unat s"
proof -
  have p2: "unat (2 * padding) = 2 * unat padding"
    using assms(2) by (simp add: unat_word_ariths)
  have sum: "unat (sz + 2 * padding) = unat sz + 2 * unat padding"
    using assms(2) p2 by (simp add: unat_word_ariths)
  have "k \<le> sz + 2 * padding"
    using assms(1) sum by (simp add: word_le_nat_alt)
  then have "unat (sz + 2 * padding - k) = unat sz + 2 * unat padding - unat k"
    using sum by (simp add: unat_sub)
  moreover have "sz - k + 2 * padding = sz + 2 * padding - k"
    by simp
  ultimately have "unat (sz - k + 2 * padding) = unat sz + 2 * unat padding - unat k"
    by (simp only:)
  then show ?thesis
    by (simp only: unat_div)
qed



section \<open>Rounding to double is monotone\<close>













section \<open>What a successful block call has done\<close>

lemma ConvolutionBlock_Inr_iff:
  "ConvolutionBlock baseLayer inSize outSize strideWidth strideHeight kernelWidth kernelHeight
     padW padH downSample dsW dsH st = Inr (ls, st') \<longleftrightarrow>
   (\<exists>w h. ConvOutSize (if downSample then dsW else inputWidth st) kernelWidth strideWidth padW = Inr w \<and>
          ConvOutSize (if downSample then dsH else inputHeight st) kernelHeight strideHeight padH = Inr h \<and>
          ls = baseLayer @ [Sequential [Convolution inSize outSize kernelWidth kernelHeight
                  strideWidth strideHeight padW padH
                  (if downSample then dsW else inputWidth st)
                  (if downSample then dsH else inputHeight st), BatchNorm outSize]] \<and>
          st' = st\<lparr>inputWidth := w, inputHeight := h\<rparr>)"
  by (auto simp: ConvolutionBlock_def Let_def split: sum.splits)

lemma BasicBlock_main_Inr_iff:
  "BasicBlock_main inSize outSize strideWidth strideHeight st = Inr (ls, st') \<longleftrightarrow>
   (\<exists>w1 h1 w2 h2.
      ConvOutSize (inputWidth st) 3 strideWidth 1 = Inr w1 \<and>
      ConvOutSize (inputHeight st) 3 strideHeight 1 = Inr h1 \<and>
      ConvOutSize w1 3 1 1 = Inr w2 \<and>
      ConvOutSize h1 3 1 1 = Inr h2 \<and>
      ls = [Sequential [Convolution inSize outSize 3 3 strideWidth strideHeight 1 1
                          (inputWidth st) (inputHeight st), BatchNorm outSize],
            ReLULayer,
            Sequential [Convolution outSize outSize 3 3 1 1 1 1 w1 h1, BatchNorm outSize]] \<and>
      st' = st\<lparr>inputWidth := w2, inputHeight := h2\<rparr>)"
  by (auto simp: BasicBlock_main_def ConvolutionBlock_def Let_def split: sum.splits prod.splits)

lemma shortcut_Inr_iff:
  "shortcut resBlock inSize outSize strideWidth strideHeight downSample st = Inr (ls, st') \<longleftrightarrow>
   (if downSample
    then (\<exists>w h. ConvOutSize (downSampleInputWidth st) 1 strideWidth 0 = Inr w \<and>
                ConvOutSize (downSampleInputHeight st) 1 strideHeight 0 = Inr h \<and>
                ls = resBlock @ [Sequential [Convolution inSize outSize 1 1 strideWidth
                        strideHeight 0 0 (downSampleInputWidth st) (downSampleInputHeight st),
                        BatchNorm outSize]] \<and>
                st' = st\<lparr>inputWidth := w, inputHeight := h\<rparr>)
    else ls = resBlock @ [IdentityLayer] \<and> st' = st)"
  by (auto simp: shortcut_def ConvolutionBlock_Inr_iff)

lemma BasicBlock_Inr_iff:
  "BasicBlock inSize outSize strideWidth strideHeight downSample st = Inr st' \<longleftrightarrow>
   (\<exists>ls st2 rs st3.
      BasicBlock_main inSize outSize strideWidth strideHeight
        (st\<lparr>downSampleInputWidth := inputWidth st,
            downSampleInputHeight := inputHeight st\<rparr>) = Inr (ls, st2) \<and>
      shortcut [Sequential ls] inSize outSize strideWidth strideHeight downSample st2
        = Inr (rs, st3) \<and>
      st' = st3\<lparr>resNet := resNet st3 @ [Sequential [AddMerge True True rs, ReLULayer]]\<rparr>)"
  by (auto simp: BasicBlock_def Let_def split: sum.splits prod.splits)

lemma BasicBlock_state:
  assumes "BasicBlock inSize outSize strideWidth strideHeight downSample st = Inr st'"
  shows "\<exists>w h b. st' = st\<lparr>downSampleInputWidth := inputWidth st,
                           downSampleInputHeight := inputHeight st,
                           inputWidth := w, inputHeight := h,
                           resNet := resNet st @ [b]\<rparr>"
proof -
  let ?st0 = "st\<lparr>downSampleInputWidth := inputWidth st,
                   downSampleInputHeight := inputHeight st\<rparr>"
  from assms obtain ls st2 rs st3 where
    main: "BasicBlock_main inSize outSize strideWidth strideHeight ?st0 = Inr (ls, st2)" and
    sc: "shortcut [Sequential ls] inSize outSize strideWidth strideHeight downSample st2
           = Inr (rs, st3)" and
    st': "st' = st3\<lparr>resNet := resNet st3 @ [Sequential [AddMerge True True rs, ReLULayer]]\<rparr>"
    unfolding BasicBlock_Inr_iff by blast
  from main obtain w2 h2 where st2: "st2 = ?st0\<lparr>inputWidth := w2, inputHeight := h2\<rparr>"
    unfolding BasicBlock_main_Inr_iff by auto
  have "\<exists>w3 h3. st3 = st2\<lparr>inputWidth := w3, inputHeight := h3\<rparr>"
  proof (cases downSample)
    case True
    with sc show ?thesis
      unfolding shortcut_Inr_iff by auto
  next
    case False
    with sc have "st3 = st2\<lparr>inputWidth := inputWidth st2, inputHeight := inputHeight st2\<rparr>"
      unfolding shortcut_Inr_iff by simp
    then show ?thesis by blast
  qed
  then obtain w3 h3 where "st3 = st2\<lparr>inputWidth := w3, inputHeight := h3\<rparr>"
    by blast
  with st2 st' have "st' = st\<lparr>downSampleInputWidth := inputWidth st,
                           downSampleInputHeight := inputHeight st,
                           inputWidth := w3, inputHeight := h3,
                           resNet := resNet st @ [Sequential [AddMerge True True rs, ReLULayer]]\<rparr>"
    by simp
  then show ?thesis by blast
qed

lemma bottleNeckWidth_Inr_iff:
  "bottleNeckWidth baseWidth outSize groups = Inr width \<longleftrightarrow>
   (unat baseWidth * unat outSize) div 64 < 2 ^ 31 \<and>
   width = of_nat ((unat baseWidth * unat outSize) div 64) * groups"
  by (auto simp: bottleNeckWidth_def Let_def)

lemma floor_width:
  "\<lfloor>real (unat baseWidth) / 64 * real (unat outSize)\<rfloor> =
   int ((unat baseWidth * unat outSize) div 64)"
proof -
  have "real (unat baseWidth) / 64 * real (unat outSize) =
      real (unat baseWidth * unat outSize) / real 64"
    by simp
  then show ?thesis
    by (simp only: floor_divide_of_nat_eq)
qed

lemma bottleNeckWidth_default:
  "bottleNeckWidth 64 outSize 1 = Inr width \<Longrightarrow> width = outSize"
  by (simp add: bottleNeckWidth_Inr_iff)

lemma BottleNeck_main_Inr_iff:
  "BottleNeck_main inSize width outSize strideWidth strideHeight st = Inr (ls, st') \<longleftrightarrow>
   (\<exists>w1 h1 w2 h2 w3 h3.
      ConvOutSize (inputWidth st) 1 1 0 = Inr w1 \<and>
      ConvOutSize (inputHeight st) 1 1 0 = Inr h1 \<and>
      ConvOutSize w1 3 strideWidth 1 = Inr w2 \<and>
      ConvOutSize h1 3 strideHeight 1 = Inr h2 \<and>
      ConvOutSize w2 1 1 0 = Inr w3 \<and>
      ConvOutSize h2 1 1 0 = Inr h3 \<and>
      ls = [Sequential [Convolution inSize width 1 1 1 1 0 0 (inputWidth st) (inputHeight st),
                        BatchNorm width],
            ReLULayer,
            Sequential [Convolution width width 3 3 strideWidth strideHeight 1 1 w1 h1,
                        BatchNorm width],
            ReLULayer,
            Sequential [Convolution width (outSize * bottleNeckExpansion) 1 1 1 1 0 0 w2 h2,
                        BatchNorm (outSize * bottleNeckExpansion)]] \<and>
      st' = st\<lparr>inputWidth := w3, inputHeight := h3\<rparr>)"
  by (auto simp: BottleNeck_main_def ConvolutionBlock_def Let_def split: sum.splits prod.splits)

lemma BottleNeck_Inr_iff:
  "BottleNeck inSize outSize strideWidth strideHeight downSample baseWidth groups st = Inr st' \<longleftrightarrow>
   (\<exists>width ls st3 rs st4.
      bottleNeckWidth baseWidth outSize groups = Inr width \<and>
      BottleNeck_main inSize width outSize strideWidth strideHeight
        (st\<lparr>downSampleInputWidth := inputWidth st,
            downSampleInputHeight := inputHeight st\<rparr>) = Inr (ls, st3) \<and>
      shortcut [Sequential ls] inSize (outSize * bottleNeckExpansion) strideWidth strideHeight
        downSample st3 = Inr (rs, st4) \<and>
      st' = st4\<lparr>resNet := resNet st4 @ [Sequential [AddMerge True True rs, ReLULayer]]\<rparr>)"
  by (auto simp: BottleNeck_def Let_def split: sum.splits prod.splits)

lemma shortcut_state:
  assumes "shortcut resBlock inSize outSize strideWidth strideHeight downSample st = Inr (rs, st')"
  shows "\<exists>w h. st' = st\<lparr>inputWidth := w, inputHeight := h\<rparr>"
proof (cases downSample)
  case True
  with assms show ?thesis
    unfolding shortcut_Inr_iff by auto
next
  case False
  with assms have "st' = st\<lparr>inputWidth := inputWidth st, inputHeight := inputHeight st\<rparr>"
    unfolding shortcut_Inr_iff by simp
  then show ?thesis by blast
qed

lemma BottleNeck_state:
  assumes "BottleNeck inSize outSize strideWidth strideHeight downSample baseWidth groups st
             = Inr st'"
  shows "\<exists>w h b. st' = st\<lparr>downSampleInputWidth := inputWidth st,
                           downSampleInputHeight := inputHeight st,
                           inputWidth := w, inputHeight := h,
                           resNet := resNet st @ [b]\<rparr>"
proof -
  let ?st0 = "st\<lparr>downSampleInputWidth := inputWidth st,
                   downSampleInputHeight := inputHeight st\<rparr>"
  from assms obtain width ls st3 rs st4 where
    main: "BottleNeck_main inSize width outSize strideWidth strideHeight ?st0 = Inr (ls, st3)" and
    sc: "shortcut [Sequential ls] inSize (outSize * bottleNeckExpansion) strideWidth
           strideHeight downSample st3 = Inr (rs, st4)" and
    st': "st' = st4\<lparr>resNet := resNet st4 @ [Sequential [AddMerge True True rs, ReLULayer]]\<rparr>"
    unfolding BottleNeck_Inr_iff by blast
  from main obtain w3 h3 where st3: "st3 = ?st0\<lparr>inputWidth := w3, inputHeight := h3\<rparr>"
    unfolding BottleNeck_main_Inr_iff by auto
  from shortcut_state [OF sc] obtain w4 h4 where
    "st4 = st3\<lparr>inputWidth := w4, inputHeight := h4\<rparr>"
    by blast
  with st3 st' have "st' = st\<lparr>downSampleInputWidth := inputWidth st,
                           downSampleInputHeight := inputHeight st,
                           inputWidth := w4, inputHeight := h4,
                           resNet := resNet st @ [Sequential [AddMerge True True rs, ReLULayer]]\<rparr>"
    by simp
  then show ?thesis by blast
qed

section \<open>The loop of MakeLayer\<close>

lemma for_blocks_repeat:
  "for_blocks body i numBlocks st = repeat_blocks (unat (numBlocks - i)) body st"
proof (induction "unat (numBlocks - i)" arbitrary: i st)
  case 0
  then have "i = numBlocks"
    by (simp add: unat_eq_0)
  then show ?case
    by (simp add: for_blocks.simps)
next
  case (Suc n)
  then have ne: "i \<noteq> numBlocks"
    by auto
  have eq: "numBlocks - (i + 1) = numBlocks - i - 1"
    by simp
  have "numBlocks - i \<noteq> 0"
    using ne by simp
  then have "unat (numBlocks - i - 1) = unat (numBlocks - i) - 1"
    by (simp add: unat_minus_one)
  with Suc.hyps(2) have n: "n = unat (numBlocks - (i + 1))"
    unfolding eq by simp
  have step: "for_blocks body (i + 1) numBlocks s = repeat_blocks n body s" for s
    using Suc.hyps(1) [OF n] n by simp
  have "for_blocks body i numBlocks st =
      (case body st of Inl f \<Rightarrow> Inl f | Inr st' \<Rightarrow> for_blocks body (i + 1) numBlocks st')"
    using ne by (subst for_blocks.simps) simp
  also have "\<dots> = repeat_blocks (Suc n) body st"
    by (simp add: step split: sum.splits)
  finally show ?case
    using Suc.hyps(2) by simp
qed

lemma repeat_blocks_cong:
  assumes "P st"
    and "\<And>s. P s \<Longrightarrow> body s = body' s"
    and "\<And>s s'. P s \<Longrightarrow> body' s = Inr s' \<Longrightarrow> P s'"
  shows "repeat_blocks n body st = repeat_blocks n body' st"
  using assms(1)
proof (induction n arbitrary: st)
  case 0
  then show ?case by simp
next
  case (Suc n)
  then show ?case
    by (auto simp: assms(2) split: sum.splits dest: assms(3))
qed

lemma BasicBlock_keeps_downSampleInSize:
  "BasicBlock inSize outSize strideWidth strideHeight downSample st = Inr st' \<Longrightarrow>
   downSampleInSize st' = downSampleInSize st \<and> length (resNet st') = Suc (length (resNet st))"
  by (drule BasicBlock_state) auto

lemma BottleNeck_keeps_downSampleInSize:
  "BottleNeck inSize outSize strideWidth strideHeight downSample baseWidth groups st = Inr st' \<Longrightarrow>
   downSampleInSize st' = downSampleInSize st \<and> length (resNet st') = Suc (length (resNet st))"
  by (drule BottleNeck_state) auto

lemma repeat_blocks_count:
  assumes "repeat_blocks n body st = Inr st'"
    and "\<And>s s'. body s = Inr s' \<Longrightarrow>
           downSampleInSize s' = downSampleInSize s \<and>
           length (resNet s') = Suc (length (resNet s))"
  shows "downSampleInSize st' = downSampleInSize st \<and>
         length (resNet st') = length (resNet st) + n"
  using assms(1)
proof (induction n arbitrary: st)
  case 0
  then show ?case by simp
next
  case (Suc n)
  from Suc.prems obtain s1 where b: "body st = Inr s1" and r: "repeat_blocks n body s1 = Inr st'"
    by (auto split: sum.splits)
  from Suc.IH [OF r] assms(2) [OF b] show ?case
    by simp
qed

lemma loop_BasicBlock:
  assumes "downSampleInSize st = c"
  shows "for_blocks (\<lambda>s. BasicBlock (downSampleInSize s) outSize 1 1 False s) i numBlocks st =
         repeat_blocks (unat (numBlocks - i)) (BasicBlock c outSize 1 1 False) st"
  unfolding for_blocks_repeat
proof (rule repeat_blocks_cong [where P = "\<lambda>s. downSampleInSize s = c"])
  show "downSampleInSize st = c" by (rule assms)
next
  fix s :: ResNet assume "downSampleInSize s = c"
  then show "BasicBlock (downSampleInSize s) outSize 1 1 False s = BasicBlock c outSize 1 1 False s"
    by simp
next
  fix s s' :: ResNet assume "downSampleInSize s = c" and "BasicBlock c outSize 1 1 False s = Inr s'"
  then show "downSampleInSize s' = c"
    using BasicBlock_keeps_downSampleInSize by simp
qed

lemma loop_BottleNeck:
  assumes "downSampleInSize st = c"
  shows "for_blocks (\<lambda>s. BottleNeck (downSampleInSize s) outSize 1 1 False 64 1 s) i numBlocks st =
         repeat_blocks (unat (numBlocks - i)) (BottleNeck c outSize 1 1 False 64 1) st"
  unfolding for_blocks_repeat
proof (rule repeat_blocks_cong [where P = "\<lambda>s. downSampleInSize s = c"])
  show "downSampleInSize st = c" by (rule assms)
next
  fix s :: ResNet assume "downSampleInSize s = c"
  then show "BottleNeck (downSampleInSize s) outSize 1 1 False 64 1 s =
             BottleNeck c outSize 1 1 False 64 1 s"
    by simp
next
  fix s s' :: ResNet assume "downSampleInSize s = c" and "BottleNeck c outSize 1 1 False 64 1 s = Inr s'"
  then show "downSampleInSize s' = c"
    using BottleNeck_keeps_downSampleInSize by simp
qed

lemma MakeLayer_basicblock:
  "MakeLayer ''basicblock'' outSize numBlocks stride st =
     (case BasicBlock (downSampleInSize st) (outSize * basicBlockExpansion) stride stride
             (stride \<noteq> 1 \<or> downSampleInSize st \<noteq> outSize * basicBlockExpansion) st of
        Inl f \<Rightarrow> Inl f
      | Inr st1 \<Rightarrow>
          repeat_blocks (unat (numBlocks - 1))
            (BasicBlock (outSize * basicBlockExpansion) outSize 1 1 False)
            (st1\<lparr>downSampleInSize := outSize * basicBlockExpansion\<rparr>))"
  by (simp add: MakeLayer_def Let_def loop_BasicBlock split: sum.splits)

lemma MakeLayer_bottleneck:
  "block \<noteq> ''basicblock'' \<Longrightarrow>
   MakeLayer block outSize numBlocks stride st =
     (case BottleNeck (downSampleInSize st) outSize stride stride
             (stride \<noteq> 1 \<or> downSampleInSize st \<noteq> outSize * bottleNeckExpansion) 64 1 st of
        Inl f \<Rightarrow> Inl f
      | Inr st1 \<Rightarrow>
          repeat_blocks (unat (numBlocks - 1))
            (BottleNeck (outSize * bottleNeckExpansion) outSize 1 1 False 64 1)
            (st1\<lparr>downSampleInSize := outSize * bottleNeckExpansion\<rparr>))"
  by (simp add: MakeLayer_def Let_def loop_BottleNeck split: sum.splits)

lemma MakeLayer_result:
  assumes "MakeLayer block outSize numBlocks stride st = Inr st'"
  shows "downSampleInSize st' =
           outSize * (if block = ''basicblock'' then basicBlockExpansion else bottleNeckExpansion) \<and>
         length (resNet st') = length (resNet st) + 1 + unat (numBlocks - 1)"
proof (cases "block = ''basicblock''")
  case True
  let ?first = "BasicBlock (downSampleInSize st) (outSize * basicBlockExpansion) stride stride
          (stride \<noteq> 1 \<or> downSampleInSize st \<noteq> outSize * basicBlockExpansion) st"
  from assms True have m: "(case ?first of Inl f \<Rightarrow> Inl f
      | Inr st1 \<Rightarrow> repeat_blocks (unat (numBlocks - 1))
          (BasicBlock (outSize * basicBlockExpansion) outSize 1 1 False)
          (st1\<lparr>downSampleInSize := outSize * basicBlockExpansion\<rparr>)) = Inr st'"
    by (simp only: MakeLayer_basicblock)
  then obtain st1 where f: "?first = Inr st1"
    by (cases ?first) simp_all
  with m have r: "repeat_blocks (unat (numBlocks - 1))
          (BasicBlock (outSize * basicBlockExpansion) outSize 1 1 False)
          (st1\<lparr>downSampleInSize := outSize * basicBlockExpansion\<rparr>) = Inr st'"
    by simp
  from repeat_blocks_count [OF r] BasicBlock_keeps_downSampleInSize [OF f]
    BasicBlock_keeps_downSampleInSize
  show ?thesis using True by simp
next
  case False
  let ?first = "BottleNeck (downSampleInSize st) outSize stride stride
          (stride \<noteq> 1 \<or> downSampleInSize st \<noteq> outSize * bottleNeckExpansion) 64 1 st"
  from assms have m: "(case ?first of Inl f \<Rightarrow> Inl f
      | Inr st1 \<Rightarrow> repeat_blocks (unat (numBlocks - 1))
          (BottleNeck (outSize * bottleNeckExpansion) outSize 1 1 False 64 1)
          (st1\<lparr>downSampleInSize := outSize * bottleNeckExpansion\<rparr>)) = Inr st'"
    by (simp only: MakeLayer_bottleneck [OF False])
  then obtain st1 where f: "?first = Inr st1"
    by (cases ?first) simp_all
  with m have r: "repeat_blocks (unat (numBlocks - 1))
          (BottleNeck (outSize * bottleNeckExpansion) outSize 1 1 False 64 1)
          (st1\<lparr>downSampleInSize := outSize * bottleNeckExpansion\<rparr>) = Inr st'"
    by simp
  from repeat_blocks_count [OF r] BottleNeck_keeps_downSampleInSize [OF f]
    BottleNeck_keeps_downSampleInSize
  show ?thesis using False by simp
qed

section \<open>Blocks on shapes in the exact range\<close>

lemma conv_small:
  fixes w s :: size_t
  assumes "s \<noteq> 0" and "0 < unat w" and "unat w \<le> 2 ^ 53"
  shows "unat ((w - 1) div s) < 2 ^ 53"
    and "0 < unat ((w - 1) div s + 1)"
    and "unat ((w - 1) div s + 1) \<le> unat w"
proof -
  have "w \<noteq> 0"
    using assms(2) by auto
  then have w1: "unat (w - 1) = unat w - 1"
    by (rule unat_minus_one)
  have "unat ((w - 1) div s) \<le> unat (w - 1)"
    by (simp add: unat_div)
  with w1 assms(2,3) show q: "unat ((w - 1) div s) < 2 ^ 53"
    by simp
  then have "unat ((w - 1) div s) + 1 < 2 ^ 64"
    by simp
  then have u: "unat ((w - 1) div s + 1) = unat ((w - 1) div s) + 1"
    by (simp add: unat_word_ariths)
  then show "0 < unat ((w - 1) div s + 1)"
    by simp
  from u w1 assms(2) \<open>unat ((w - 1) div s) \<le> unat (w - 1)\<close>
  show "unat ((w - 1) div s + 1) \<le> unat w"
    by simp
qed

lemma ConvOutSize_3_1:
  assumes "s \<noteq> 0" and "0 < unat w" and "unat w \<le> 2 ^ 53"
  shows "ConvOutSize w 3 s 1 = Inr ((w - 1) div s + 1)"
proof -
  have "w - 3 + 2 * 1 = w - 1" by simp
  with ConvOutSize_exact [of s w 3 1] conv_small(1) [OF assms] assms(1)
  show ?thesis by simp
qed

lemma ConvOutSize_1_0:
  assumes "s \<noteq> 0" and "0 < unat w" and "unat w \<le> 2 ^ 53"
  shows "ConvOutSize w 1 s 0 = Inr ((w - 1) div s + 1)"
  using ConvOutSize_exact [of s w 1 0] conv_small(1) [OF assms] assms(1)
  by simp

lemma ConvOutSize_same:
  assumes "0 < unat w" and "unat w \<le> 2 ^ 53"
  shows "ConvOutSize w 3 1 1 = Inr w" and "ConvOutSize w 1 1 0 = Inr w"
  using ConvOutSize_3_1 [of 1 w] ConvOutSize_1_0 [of 1 w] assms by simp_all

lemma BasicBlock_main_small:
  assumes "strideWidth \<noteq> 0" and "strideHeight \<noteq> 0"
    and "0 < unat (inputWidth st)" and "unat (inputWidth st) \<le> 2 ^ 53"
    and "0 < unat (inputHeight st)" and "unat (inputHeight st) \<le> 2 ^ 53"
  shows "BasicBlock_main inSize outSize strideWidth strideHeight st =
     Inr ([Sequential [Convolution inSize outSize 3 3 strideWidth strideHeight 1 1
                          (inputWidth st) (inputHeight st), BatchNorm outSize],
           ReLULayer,
           Sequential [Convolution outSize outSize 3 3 1 1 1 1
                          ((inputWidth st - 1) div strideWidth + 1)
                          ((inputHeight st - 1) div strideHeight + 1), BatchNorm outSize]],
          st\<lparr>inputWidth := (inputWidth st - 1) div strideWidth + 1,
             inputHeight := (inputHeight st - 1) div strideHeight + 1\<rparr>)"
proof -
  let ?w1 = "(inputWidth st - 1) div strideWidth + 1"
  let ?h1 = "(inputHeight st - 1) div strideHeight + 1"
  have w1: "ConvOutSize (inputWidth st) 3 strideWidth 1 = Inr ?w1"
    using assms by (simp add: ConvOutSize_3_1)
  have h1: "ConvOutSize (inputHeight st) 3 strideHeight 1 = Inr ?h1"
    using assms by (simp add: ConvOutSize_3_1)
  have w2: "ConvOutSize ?w1 3 1 1 = Inr ?w1"
    using conv_small(2,3) [OF assms(1,3,4)] assms(4) by (intro ConvOutSize_same) simp_all
  have h2: "ConvOutSize ?h1 3 1 1 = Inr ?h1"
    using conv_small(2,3) [OF assms(2,5,6)] assms(6) by (intro ConvOutSize_same) simp_all
  show ?thesis
    unfolding BasicBlock_main_Inr_iff using w1 h1 w2 h2 by simp
qed

lemma BottleNeck_main_small:
  assumes "strideWidth \<noteq> 0" and "strideHeight \<noteq> 0"
    and "0 < unat (inputWidth st)" and "unat (inputWidth st) \<le> 2 ^ 53"
    and "0 < unat (inputHeight st)" and "unat (inputHeight st) \<le> 2 ^ 53"
  shows "BottleNeck_main inSize width outSize strideWidth strideHeight st =
     Inr ([Sequential [Convolution inSize width 1 1 1 1 0 0 (inputWidth st) (inputHeight st),
                        BatchNorm width],
           ReLULayer,
           Sequential [Convolution width width 3 3 strideWidth strideHeight 1 1
                          (inputWidth st) (inputHeight st), BatchNorm width],
           ReLULayer,
           Sequential [Convolution width (outSize * bottleNeckExpansion) 1 1 1 1 0 0
                          ((inputWidth st - 1) div strideWidth + 1)
                          ((inputHeight st - 1) div strideHeight + 1),
                        BatchNorm (outSize * bottleNeckExpansion)]],
          st\<lparr>inputWidth := (inputWidth st - 1) div strideWidth + 1,
             inputHeight := (inputHeight st - 1) div strideHeight + 1\<rparr>)"
proof -
  let ?w2 = "(inputWidth st - 1) div strideWidth + 1"
  let ?h2 = "(inputHeight st - 1) div strideHeight + 1"
  have w1: "ConvOutSize (inputWidth st) 1 1 0 = Inr (inputWidth st)"
    using assms by (simp add: ConvOutSize_same)
  have h1: "ConvOutSize (inputHeight st) 1 1 0 = Inr (inputHeight st)"
    using assms by (simp add: ConvOutSize_same)
  have w2: "ConvOutSize (inputWidth st) 3 strideWidth 1 = Inr ?w2"
    using assms by (simp add: ConvOutSize_3_1)
  have h2: "ConvOutSize (inputHeight st) 3 strideHeight 1 = Inr ?h2"
    using assms by (simp add: ConvOutSize_3_1)
  have w3: "ConvOutSize ?w2 1 1 0 = Inr ?w2"
    using conv_small(2,3) [OF assms(1,3,4)] assms(4) by (intro ConvOutSize_same) simp_all
  have h3: "ConvOutSize ?h2 1 1 0 = Inr ?h2"
    using conv_small(2,3) [OF assms(2,5,6)] assms(6) by (intro ConvOutSize_same) simp_all
  show ?thesis
    unfolding BottleNeck_main_Inr_iff using w1 h1 w2 h2 w3 h3 by simp
qed

lemma shortcut_small:
  assumes "strideWidth \<noteq> 0" and "strideHeight \<noteq> 0"
    and "0 < unat (downSampleInputWidth st)" and "unat (downSampleInputWidth st) \<le> 2 ^ 53"
    and "0 < unat (downSampleInputHeight st)" and "unat (downSampleInputHeight st) \<le> 2 ^ 53"
  shows "shortcut resBlock inSize outSize strideWidth strideHeight True st =
     Inr (resBlock @ [Sequential [Convolution inSize outSize 1 1 strideWidth strideHeight 0 0
                        (downSampleInputWidth st) (downSampleInputHeight st),
                        BatchNorm outSize]],
          st\<lparr>inputWidth := (downSampleInputWidth st - 1) div strideWidth + 1,
             inputHeight := (downSampleInputHeight st - 1) div strideHeight + 1\<rparr>)"
  unfolding shortcut_Inr_iff using assms by (simp add: ConvOutSize_1_0)

lemma BasicBlock_small:
  assumes "strideWidth \<noteq> 0" and "strideHeight \<noteq> 0"
    and "downSample \<or> (strideWidth = 1 \<and> strideHeight = 1)"
    and "0 < unat (inputWidth st)" and "unat (inputWidth st) \<le> 2 ^ 53"
    and "0 < unat (inputHeight st)" and "unat (inputHeight st) \<le> 2 ^ 53"
  shows "\<exists>b. BasicBlock inSize outSize strideWidth strideHeight downSample st =
     Inr (st\<lparr>downSampleInputWidth := inputWidth st,
             downSampleInputHeight := inputHeight st,
             inputWidth := (inputWidth st - 1) div strideWidth + 1,
             inputHeight := (inputHeight st - 1) div strideHeight + 1,
             resNet := resNet st @ [b]\<rparr>)"
proof -
  let ?st0 = "st\<lparr>downSampleInputWidth := inputWidth st,
                   downSampleInputHeight := inputHeight st\<rparr>"
  let ?w = "(inputWidth st - 1) div strideWidth + 1"
  let ?h = "(inputHeight st - 1) div strideHeight + 1"
  have b0: "0 < unat (inputWidth ?st0)" "unat (inputWidth ?st0) \<le> 2 ^ 53"
    "0 < unat (inputHeight ?st0)" "unat (inputHeight ?st0) \<le> 2 ^ 53"
    using assms(4-7) by simp_all
  obtain ls where main: "BasicBlock_main inSize outSize strideWidth strideHeight ?st0 =
      Inr (ls, ?st0\<lparr>inputWidth := ?w, inputHeight := ?h\<rparr>)"
    using BasicBlock_main_small [OF assms(1,2) b0, of inSize outSize] by simp
  let ?st2 = "?st0\<lparr>inputWidth := ?w, inputHeight := ?h\<rparr>"
  have "\<exists>rs. shortcut [Sequential ls] inSize outSize strideWidth strideHeight downSample ?st2 =
      Inr (rs, ?st2)"
  proof (cases downSample)
    case True
    have "shortcut [Sequential ls] inSize outSize strideWidth strideHeight True ?st2 =
      Inr ([Sequential ls] @ [Sequential [Convolution inSize outSize 1 1 strideWidth
             strideHeight 0 0 (downSampleInputWidth ?st2) (downSampleInputHeight ?st2),
             BatchNorm outSize]],
           ?st2\<lparr>inputWidth := (downSampleInputWidth ?st2 - 1) div strideWidth + 1,
                inputHeight := (downSampleInputHeight ?st2 - 1) div strideHeight + 1\<rparr>)"
      using assms(1,2,4-7) by (intro shortcut_small) simp_all
    with True show ?thesis by simp
  next
    case False
    then show ?thesis by (simp add: shortcut_def)
  qed
  then obtain rs where
    "shortcut [Sequential ls] inSize outSize strideWidth strideHeight downSample ?st2 =
      Inr (rs, ?st2)" ..
  with main show ?thesis
    by (intro exI [of _ "Sequential [AddMerge True True rs, ReLULayer]"])
      (simp add: BasicBlock_def)
qed

lemma BottleNeck_small:
  assumes "strideWidth \<noteq> 0" and "strideHeight \<noteq> 0"
    and "downSample \<or> (strideWidth = 1 \<and> strideHeight = 1)"
    and "0 < unat (inputWidth st)" and "unat (inputWidth st) \<le> 2 ^ 53"
    and "0 < unat (inputHeight st)" and "unat (inputHeight st) \<le> 2 ^ 53"
    and "unat outSize < 2 ^ 31"
  shows "\<exists>b. BottleNeck inSize outSize strideWidth strideHeight downSample 64 1 st =
     Inr (st\<lparr>downSampleInputWidth := inputWidth st,
             downSampleInputHeight := inputHeight st,
             inputWidth := (inputWidth st - 1) div strideWidth + 1,
             inputHeight := (inputHeight st - 1) div strideHeight + 1,
             resNet := resNet st @ [b]\<rparr>)"
proof -
  let ?st0 = "st\<lparr>downSampleInputWidth := inputWidth st,
                   downSampleInputHeight := inputHeight st\<rparr>"
  let ?w = "(inputWidth st - 1) div strideWidth + 1"
  let ?h = "(inputHeight st - 1) div strideHeight + 1"
  have width: "bottleNeckWidth 64 outSize 1 = Inr outSize"
    using assms(8) by (simp add: bottleNeckWidth_Inr_iff)
  have b0: "0 < unat (inputWidth ?st0)" "unat (inputWidth ?st0) \<le> 2 ^ 53"
    "0 < unat (inputHeight ?st0)" "unat (inputHeight ?st0) \<le> 2 ^ 53"
    using assms(4-7) by simp_all
  obtain ls where main: "BottleNeck_main inSize outSize outSize strideWidth strideHeight ?st0 =
      Inr (ls, ?st0\<lparr>inputWidth := ?w, inputHeight := ?h\<rparr>)"
    using BottleNeck_main_small [OF assms(1,2) b0, of inSize outSize outSize] by simp
  let ?st2 = "?st0\<lparr>inputWidth := ?w, inputHeight := ?h\<rparr>"
  let ?out = "outSize * bottleNeckExpansion"
  have "\<exists>rs. shortcut [Sequential ls] inSize ?out strideWidth strideHeight downSample ?st2 =
      Inr (rs, ?st2)"
  proof (cases downSample)
    case True
    have "shortcut [Sequential ls] inSize ?out strideWidth strideHeight True ?st2 =
      Inr ([Sequential ls] @ [Sequential [Convolution inSize ?out 1 1 strideWidth
             strideHeight 0 0 (downSampleInputWidth ?st2) (downSampleInputHeight ?st2),
             BatchNorm ?out]],
           ?st2\<lparr>inputWidth := (downSampleInputWidth ?st2 - 1) div strideWidth + 1,
                inputHeight := (downSampleInputHeight ?st2 - 1) div strideHeight + 1\<rparr>)"
      using assms(1,2,4-7) by (intro shortcut_small) simp_all
    with True show ?thesis by simp
  next
    case False
    then show ?thesis by (simp add: shortcut_def)
  qed
  then obtain rs where
    "shortcut [Sequential ls] inSize ?out strideWidth strideHeight downSample ?st2 =
      Inr (rs, ?st2)" ..
  with main width show ?thesis
    by (intro exI [of _ "Sequential [AddMerge True True rs, ReLULayer]"])
      (simp add: BottleNeck_def)
qed

lemma repeat_blocks_same_shape:
  assumes "0 < unat (inputWidth st)" and "unat (inputWidth st) \<le> 2 ^ 53"
    and "0 < unat (inputHeight st)" and "unat (inputHeight st) \<le> 2 ^ 53"
    and body: "\<And>s. 0 < unat (inputWidth s) \<Longrightarrow> unat (inputWidth s) \<le> 2 ^ 53 \<Longrightarrow>
           0 < unat (inputHeight s) \<Longrightarrow> unat (inputHeight s) \<le> 2 ^ 53 \<Longrightarrow>
           \<exists>s'. body s = Inr s' \<and> inputWidth s' = inputWidth s \<and>
                inputHeight s' = inputHeight s"
  shows "\<exists>st'. repeat_blocks n body st = Inr st' \<and> inputWidth st' = inputWidth st \<and>
           inputHeight st' = inputHeight st"
  using assms(1-4)
proof (induction n arbitrary: st)
  case 0
  then show ?case by simp
next
  case (Suc n)
  from body [OF Suc.prems] obtain s' where
    s': "body st = Inr s'" "inputWidth s' = inputWidth st" "inputHeight s' = inputHeight st"
    by blast
  with Suc.prems have "0 < unat (inputWidth s')" "unat (inputWidth s') \<le> 2 ^ 53"
    "0 < unat (inputHeight s')" "unat (inputHeight s') \<le> 2 ^ 53"
    by simp_all
  from Suc.IH [OF this] s' show ?case
    by auto
qed

lemma MakeLayer_small:
  assumes "stride \<noteq> 0"
    and "0 < unat (inputWidth st)" and "unat (inputWidth st) \<le> 2 ^ 53"
    and "0 < unat (inputHeight st)" and "unat (inputHeight st) \<le> 2 ^ 53"
    and "block = ''basicblock'' \<or> unat outSize < 2 ^ 31"
  shows "\<exists>st'. MakeLayer block outSize numBlocks stride st = Inr st' \<and>
           inputWidth st' = (inputWidth st - 1) div stride + 1 \<and>
           inputHeight st' = (inputHeight st - 1) div stride + 1"
proof -
  let ?w = "(inputWidth st - 1) div stride + 1"
  let ?h = "(inputHeight st - 1) div stride + 1"
  have wb: "0 < unat ?w" "unat ?w \<le> 2 ^ 53"
    using conv_small(2,3) [OF assms(1,2,3)] assms(3) by simp_all
  have hb: "0 < unat ?h" "unat ?h \<le> 2 ^ 53"
    using conv_small(2,3) [OF assms(1,4,5)] assms(5) by simp_all
  show ?thesis
  proof (cases "block = ''basicblock''")
    case True
    let ?c = "outSize * basicBlockExpansion"
    let ?ds = "stride \<noteq> 1 \<or> downSampleInSize st \<noteq> ?c"
    have "?ds \<or> (stride = 1 \<and> stride = 1)"
      by blast
    from BasicBlock_small [OF assms(1) assms(1) this assms(2-5), of "downSampleInSize st" ?c]
    obtain b where first: "BasicBlock (downSampleInSize st) ?c stride stride ?ds st =
        Inr (st\<lparr>downSampleInputWidth := inputWidth st,
                downSampleInputHeight := inputHeight st,
                inputWidth := ?w, inputHeight := ?h, resNet := resNet st @ [b]\<rparr>)"
      by blast
    let ?st1 = "st\<lparr>downSampleInputWidth := inputWidth st,
                downSampleInputHeight := inputHeight st,
                inputWidth := ?w, inputHeight := ?h, resNet := resNet st @ [b],
                downSampleInSize := ?c\<rparr>"
    have body: "\<exists>s'. BasicBlock ?c outSize 1 1 False s = Inr s' \<and>
        inputWidth s' = inputWidth s \<and> inputHeight s' = inputHeight s"
      if "0 < unat (inputWidth s)" "unat (inputWidth s) \<le> 2 ^ 53"
        "0 < unat (inputHeight s)" "unat (inputHeight s) \<le> 2 ^ 53" for s
      using BasicBlock_small [of 1 1 False s ?c outSize] that by auto
    have "\<exists>st'. repeat_blocks (unat (numBlocks - 1)) (BasicBlock ?c outSize 1 1 False) ?st1
        = Inr st' \<and> inputWidth st' = inputWidth ?st1 \<and> inputHeight st' = inputHeight ?st1"
      using wb hb by (intro repeat_blocks_same_shape body) simp_all
    then show ?thesis
      using True first by (simp only: MakeLayer_basicblock) simp
  next
    case False
    with assms(6) have out: "unat outSize < 2 ^ 31"
      by simp
    let ?c = "outSize * bottleNeckExpansion"
    let ?ds = "stride \<noteq> 1 \<or> downSampleInSize st \<noteq> ?c"
    have "?ds \<or> (stride = 1 \<and> stride = 1)"
      by blast
    from BottleNeck_small [OF assms(1) assms(1) this assms(2-5) out, of "downSampleInSize st"]
    obtain b where first: "BottleNeck (downSampleInSize st) outSize stride stride ?ds 64 1 st =
        Inr (st\<lparr>downSampleInputWidth := inputWidth st,
                downSampleInputHeight := inputHeight st,
                inputWidth := ?w, inputHeight := ?h, resNet := resNet st @ [b]\<rparr>)"
      by blast
    let ?st1 = "st\<lparr>downSampleInputWidth := inputWidth st,
                downSampleInputHeight := inputHeight st,
                inputWidth := ?w, inputHeight := ?h, resNet := resNet st @ [b],
                downSampleInSize := ?c\<rparr>"
    have body: "\<exists>s'. BottleNeck ?c outSize 1 1 False 64 1 s = Inr s' \<and>
        inputWidth s' = inputWidth s \<and> inputHeight s' = inputHeight s"
      if "0 < unat (inputWidth s)" "unat (inputWidth s) \<le> 2 ^ 53"
        "0 < unat (inputHeight s)" "unat (inputHeight s) \<le> 2 ^ 53" for s
      using BottleNeck_small [of 1 1 False s outSize ?c] that out by auto
    have "\<exists>st'. repeat_blocks (unat (numBlocks - 1)) (BottleNeck ?c outSize 1 1 False 64 1) ?st1
        = Inr st' \<and> inputWidth st' = inputWidth ?st1 \<and> inputHeight st' = inputHeight ?st1"
      using wb hb by (intro repeat_blocks_same_shape body) simp_all
    then show ?thesis
      using False first by (simp only: MakeLayer_bottleneck [OF False]) simp
  qed
qed

lemma MakeLayer_unfolded:
  "MakeLayer block outSize numBlocks stride st =
     (case (if block = ''basicblock''
            then BasicBlock (downSampleInSize st)
                   (outSize * (if block = ''basicblock'' then basicBlockExpansion
                               else bottleNeckExpansion))
                   stride stride
                   (stride \<noteq> 1 \<or> downSampleInSize st \<noteq>
                      outSize * (if block = ''basicblock'' then basicBlockExpansion
                                 else bottleNeckExpansion)) st
            else BottleNeck (downSampleInSize st) outSize stride stride
                   (stride \<noteq> 1 \<or> downSampleInSize st \<noteq>
                      outSize * (if block = ''basicblock'' then basicBlockExpansion
                                 else bottleNeckExpansion)) 64 1 st) of
        Inl f \<Rightarrow> Inl f
      | Inr st1 \<Rightarrow>
          repeat_blocks (unat (numBlocks - 1))
            (if block = ''basicblock''
             then BasicBlock (outSize * (if block = ''basicblock'' then basicBlockExpansion
                               else bottleNeckExpansion)) outSize 1 1 False
             else BottleNeck (outSize * (if block = ''basicblock'' then basicBlockExpansion
                               else bottleNeckExpansion)) outSize 1 1 False 64 1)
            (st1\<lparr>downSampleInSize := outSize * (if block = ''basicblock'' then basicBlockExpansion
                               else bottleNeckExpansion)\<rparr>))"
proof (cases "block = ''basicblock''")
  case True
  then show ?thesis
    by (simp only: MakeLayer_basicblock if_True simp_thms)
next
  case False
  then show ?thesis
    by (simp only: MakeLayer_bottleneck [OF False] False if_False)
qed

section \<open>The four stages and the table\<close>

lemma stages_Inr_iff:
  "stages block counts st = Inr s4 \<longleftrightarrow>
   (\<exists>s1 s2 s3.
      MakeLayer block 64 (counts ! 0) 1 st = Inr s1 \<and>
      MakeLayer block 128 (counts ! 1) 2 s1 = Inr s2 \<and>
      MakeLayer block 256 (counts ! 2) 2 s2 = Inr s3 \<and>
      MakeLayer block 512 (counts ! 3) 2 s3 = Inr s4)"
  by (auto simp: stages_def split: sum.splits)

lemma stages_small:
  assumes "0 < unat (inputWidth st)" and "unat (inputWidth st) \<le> 2 ^ 53"
    and "0 < unat (inputHeight st)" and "unat (inputHeight st) \<le> 2 ^ 53"
  shows "\<exists>s4. stages block counts st = Inr s4 \<and>
      inputWidth s4 = (((inputWidth st - 1) div 2 + 1 - 1) div 2 + 1 - 1) div 2 + 1 \<and>
      inputHeight s4 = (((inputHeight st - 1) div 2 + 1 - 1) div 2 + 1 - 1) div 2 + 1"
proof -
  have two: "(2 :: size_t) \<noteq> 0" and one: "(1 :: size_t) \<noteq> 0"
    by simp_all
  have o1: "block = ''basicblock'' \<or> unat (64 :: size_t) < 2 ^ 31"
    and o2: "block = ''basicblock'' \<or> unat (128 :: size_t) < 2 ^ 31"
    and o3: "block = ''basicblock'' \<or> unat (256 :: size_t) < 2 ^ 31"
    and o4: "block = ''basicblock'' \<or> unat (512 :: size_t) < 2 ^ 31"
    by simp_all
  from MakeLayer_small [OF one assms o1, of "counts ! 0"] obtain s1 where
    s1: "MakeLayer block 64 (counts ! 0) 1 st = Inr s1"
      "inputWidth s1 = inputWidth st" "inputHeight s1 = inputHeight st"
    by auto
  have b1: "0 < unat (inputWidth s1)" "unat (inputWidth s1) \<le> 2 ^ 53"
    "0 < unat (inputHeight s1)" "unat (inputHeight s1) \<le> 2 ^ 53"
    using assms s1 by simp_all
  from MakeLayer_small [OF two b1 o2, of "counts ! 1"] obtain s2 where
    s2: "MakeLayer block 128 (counts ! 1) 2 s1 = Inr s2"
      "inputWidth s2 = (inputWidth s1 - 1) div 2 + 1"
      "inputHeight s2 = (inputHeight s1 - 1) div 2 + 1"
    by auto
  have b2: "0 < unat (inputWidth s2)" "unat (inputWidth s2) \<le> 2 ^ 53"
    "0 < unat (inputHeight s2)" "unat (inputHeight s2) \<le> 2 ^ 53"
    using conv_small(2,3) [OF two b1(1,2)] conv_small(2,3) [OF two b1(3,4)] b1 s2
    by simp_all
  from MakeLayer_small [OF two b2 o3, of "counts ! 2"] obtain s3 where
    s3: "MakeLayer block 256 (counts ! 2) 2 s2 = Inr s3"
      "inputWidth s3 = (inputWidth s2 - 1) div 2 + 1"
      "inputHeight s3 = (inputHeight s2 - 1) div 2 + 1"
    by auto
  have b3: "0 < unat (inputWidth s3)" "unat (inputWidth s3) \<le> 2 ^ 53"
    "0 < unat (inputHeight s3)" "unat (inputHeight s3) \<le> 2 ^ 53"
    using conv_small(2,3) [OF two b2(1,2)] conv_small(2,3) [OF two b2(3,4)] b2 s3
    by simp_all
  from MakeLayer_small [OF two b3 o4, of "counts ! 3"] obtain s4 where
    s4: "MakeLayer block 512 (counts ! 3) 2 s3 = Inr s4"
      "inputWidth s4 = (inputWidth s3 - 1) div 2 + 1"
      "inputHeight s4 = (inputHeight s3 - 1) div 2 + 1"
    by auto
  have "stages block counts st = Inr s4"
    unfolding stages_Inr_iff using s1(1) s2(1) s3(1) s4(1) by blast
  then show ?thesis
    using s1 s2 s3 s4 by simp
qed

lemma stages_result:
  assumes "stages block counts st = Inr s4"
  shows "downSampleInSize s4 =
      512 * (if block = ''basicblock'' then basicBlockExpansion else bottleNeckExpansion)"
  using assms unfolding stages_Inr_iff by (auto dest: MakeLayer_result)

lemma head_keeps:
  "inputWidth (head includeTop st) = inputWidth st"
  "inputHeight (head includeTop st) = inputHeight st"
  "downSampleInSize (head includeTop st) = downSampleInSize st"
  by (simp_all add: head_def)

lemma ResNetConfig_rows:
  "ResNetConfig 18 = Some [(''basicblock'', [2, 2, 2, 2])]"
  "ResNetConfig 34 = Some [(''basicblock'', [3, 4, 6, 3])]"
  "ResNetConfig 50 = Some [(''bottleneck'', [3, 4, 6, 3])]"
  "ResNetConfig 101 = Some [(''bottleneck'', [3, 4, 23, 3])]"
  "ResNetConfig 152 = Some [(''bottleneck'', [3, 8, 36, 3])]"
  by (simp_all add: ResNetConfig_def)





text \<open>
  The specification gives neither the padding of the stem's convolution nor the effect of
  its pooling on the shape. For the padding 3 and a pooling that takes 112 to 56, version
  18 on the input shape (3, 224, 224) ends with the tracked shape 7 x 7 and 512 tracked
  channels.
\<close>

lemma ResNet18_shape_for_given_stem:
  assumes "pool 112 = 56" and "preTrained \<longrightarrow> includeTop"
  shows "\<exists>net. ResNet_ctor 18 3 pool 3 224 224 includeTop preTrained classes = Inr net \<and>
           inputWidth net = 7 \<and> inputHeight net = 7 \<and> downSampleInSize net = 512"
proof -
  let ?st0 = "initial 3 224 224 classes"
  have c: "ConvOutSize 224 7 2 3 = Inr 112"
    by (simp add: ConvOutSize_exact)
  let ?st1 = "?st0\<lparr>resNet := resNet ?st0 @
                 [Convolution 3 64 7 7 2 2 3 3 224 224, BatchNorm 64, ReLULayer, StemPooling],
               inputWidth := 56, inputHeight := 56\<rparr>"
  have stem: "stem 3 pool ?st0 = Inr ?st1"
    using c assms(1) by (simp add: stem_def initial_def)
  let ?st1' = "?st1\<lparr>builderBlock := ''basicblock'', numBlockArray := [2, 2, 2, 2]\<rparr>"
  have "0 < unat (inputWidth ?st1')" "unat (inputWidth ?st1') \<le> 2 ^ 53"
    "0 < unat (inputHeight ?st1')" "unat (inputHeight ?st1') \<le> 2 ^ 53"
    by simp_all
  from stages_small [OF this, of "''basicblock''" "[2, 2, 2, 2]"] obtain s4 where
    s4: "stages ''basicblock'' [2, 2, 2, 2] ?st1' = Inr s4"
      "inputWidth s4 = 7" "inputHeight s4 = 7"
    by auto
  from stages_result [OF s4(1)] have ch: "downSampleInSize s4 = 512"
    by (simp add: basicBlockExpansion_def)
  have "ResNet_ctor 18 3 pool 3 224 224 includeTop preTrained classes =
      Inr (head includeTop s4)"
    using assms(2) stem s4(1)
    by (simp add: ResNet_ctor_def supportedVersions_def ResNetConfig_rows Let_def)
  then show ?thesis
    using s4(2,3) ch by (simp add: head_keeps)
qed

lemma BottleNeck_built_structure:
  assumes "BottleNeck inSize outSize strideWidth strideHeight downSample baseWidth groups st
             = Inr st'"
  shows "\<exists>width w1 h1 w2 h2.
      width = of_nat (nat \<lfloor>real (unat baseWidth) / 64 * real (unat outSize)\<rfloor>) * groups \<and>
      (baseWidth = 64 \<and> groups = 1 \<longrightarrow> width = outSize) \<and>
      bottleNeckExpansion = 4 \<and>
      ConvOutSize (inputWidth st) 1 1 0 = Inr w1 \<and>
      ConvOutSize (inputHeight st) 1 1 0 = Inr h1 \<and>
      ConvOutSize w1 3 strideWidth 1 = Inr w2 \<and>
      ConvOutSize h1 3 strideHeight 1 = Inr h2 \<and>
      resNet st' = resNet st @
        [Sequential
          [AddMerge True True
            [Sequential
              [Sequential [Convolution inSize width 1 1 1 1 0 0 (inputWidth st) (inputHeight st),
                           BatchNorm width],
               ReLULayer,
               Sequential [Convolution width width 3 3 strideWidth strideHeight 1 1 w1 h1,
                           BatchNorm width],
               ReLULayer,
               Sequential [Convolution width (outSize * 4) 1 1 1 1 0 0 w2 h2,
                           BatchNorm (outSize * 4)]],
             (if downSample
              then Sequential [Convolution inSize (outSize * 4) 1 1 strideWidth strideHeight
                                 0 0 (inputWidth st) (inputHeight st), BatchNorm (outSize * 4)]
              else IdentityLayer)],
           ReLULayer]] \<and>
      (\<forall>block numBlocks stride s s'.
         block \<noteq> ''basicblock'' \<longrightarrow> MakeLayer block outSize numBlocks stride s = Inr s' \<longrightarrow>
         downSampleInSize s' = outSize * 4)"
proof -
  let ?st0 = "st\<lparr>downSampleInputWidth := inputWidth st,
                   downSampleInputHeight := inputHeight st\<rparr>"
  let ?out = "outSize * 4"
  have e4: "bottleNeckExpansion = 4"
    by (simp add: bottleNeckExpansion_def)
  from assms obtain width ls st3 rs st4 where
    width: "bottleNeckWidth baseWidth outSize groups = Inr width" and
    main: "BottleNeck_main inSize width outSize strideWidth strideHeight ?st0 = Inr (ls, st3)" and
    sc: "shortcut [Sequential ls] inSize ?out strideWidth strideHeight downSample st3
           = Inr (rs, st4)" and
    st': "st' = st4\<lparr>resNet := resNet st4 @ [Sequential [AddMerge True True rs, ReLULayer]]\<rparr>"
    unfolding BottleNeck_Inr_iff e4 by blast
  from width have w: "width = of_nat ((unat baseWidth * unat outSize) div 64) * groups"
    by (simp add: bottleNeckWidth_Inr_iff)
  have fl: "nat \<lfloor>real (unat baseWidth) / 64 * real (unat outSize)\<rfloor> =
      (unat baseWidth * unat outSize) div 64"
    by (simp only: floor_width nat_int)
  have dflt: "baseWidth = 64 \<and> groups = 1 \<longrightarrow> width = outSize"
    using width bottleNeckWidth_default by blast
  from main obtain w1 h1 w2 h2 w3 h3 where
    cw1: "ConvOutSize (inputWidth st) 1 1 0 = Inr w1" and
    ch1: "ConvOutSize (inputHeight st) 1 1 0 = Inr h1" and
    cw2: "ConvOutSize w1 3 strideWidth 1 = Inr w2" and
    ch2: "ConvOutSize h1 3 strideHeight 1 = Inr h2" and
    ls: "ls = [Sequential [Convolution inSize width 1 1 1 1 0 0 (inputWidth st) (inputHeight st),
                        BatchNorm width],
            ReLULayer,
            Sequential [Convolution width width 3 3 strideWidth strideHeight 1 1 w1 h1,
                        BatchNorm width],
            ReLULayer,
            Sequential [Convolution width ?out 1 1 1 1 0 0 w2 h2, BatchNorm ?out]]" and
    st3: "st3 = ?st0\<lparr>inputWidth := w3, inputHeight := h3\<rparr>"
    unfolding BottleNeck_main_Inr_iff e4 by auto
  have rs: "rs = [Sequential ls,
       (if downSample
        then Sequential [Convolution inSize ?out 1 1 strideWidth strideHeight
                           0 0 (inputWidth st) (inputHeight st), BatchNorm ?out]
        else IdentityLayer)] \<and> resNet st4 = resNet st"
  proof (cases downSample)
    case True
    with sc st3 show ?thesis
      unfolding shortcut_Inr_iff by auto
  next
    case False
    with sc st3 show ?thesis
      unfolding shortcut_Inr_iff by auto
  qed
  have net: "resNet st' = resNet st @
     [Sequential [AddMerge True True [Sequential ls,
       (if downSample
        then Sequential [Convolution inSize ?out 1 1 strideWidth strideHeight
                           0 0 (inputWidth st) (inputHeight st), BatchNorm ?out]
        else IdentityLayer)], ReLULayer]]"
    using st' rs by simp
  have down: "\<forall>block numBlocks stride s s'.
         block \<noteq> ''basicblock'' \<longrightarrow> MakeLayer block outSize numBlocks stride s = Inr s' \<longrightarrow>
         downSampleInSize s' = outSize * 4"
    using MakeLayer_result by (auto simp: bottleNeckExpansion_def)
  from w fl have w': "width =
      of_nat (nat \<lfloor>real (unat baseWidth) / 64 * real (unat outSize)\<rfloor>) * groups"
    by (simp only:)
  from net have net': "resNet st' = resNet st @
        [Sequential
          [AddMerge True True
            [Sequential
              [Sequential [Convolution inSize width 1 1 1 1 0 0 (inputWidth st) (inputHeight st),
                           BatchNorm width],
               ReLULayer,
               Sequential [Convolution width width 3 3 strideWidth strideHeight 1 1 w1 h1,
                           BatchNorm width],
               ReLULayer,
               Sequential [Convolution width ?out 1 1 1 1 0 0 w2 h2, BatchNorm ?out]],
             (if downSample
              then Sequential [Convolution inSize ?out 1 1 strideWidth strideHeight
                                 0 0 (inputWidth st) (inputHeight st), BatchNorm ?out]
              else IdentityLayer)],
           ReLULayer]]"
    unfolding ls .
  from w' dflt e4 cw1 ch1 cw2 ch2 net' down show ?thesis
    by blast
qed

lemma bottleNeckWidth_fault_iff:
  "bottleNeckWidth baseWidth outSize groups = Inl ConversionOutOfRange \<longleftrightarrow>
   2 ^ 31 \<le> (unat baseWidth * unat outSize) div 64"
  by (auto simp: bottleNeckWidth_def Let_def)

lemma BottleNeck_built:
  assumes "(unat baseWidth * unat outSize) div 64 < 2 ^ 31"
    and "strideWidth \<noteq> 0" and "strideHeight \<noteq> 0"
    and "0 < unat (inputWidth st)" and "unat (inputWidth st) \<le> 2 ^ 53"
    and "0 < unat (inputHeight st)" and "unat (inputHeight st) \<le> 2 ^ 53"
  shows "\<exists>st'. BottleNeck inSize outSize strideWidth strideHeight downSample baseWidth groups st
           = Inr st'"
proof -
  let ?st0 = "st\<lparr>downSampleInputWidth := inputWidth st,
                   downSampleInputHeight := inputHeight st\<rparr>"
  let ?w = "(inputWidth st - 1) div strideWidth + 1"
  let ?h = "(inputHeight st - 1) div strideHeight + 1"
  let ?out = "outSize * bottleNeckExpansion"
  obtain width where width: "bottleNeckWidth baseWidth outSize groups = Inr width"
    using assms(1) by (simp add: bottleNeckWidth_Inr_iff)
  have b0: "0 < unat (inputWidth ?st0)" "unat (inputWidth ?st0) \<le> 2 ^ 53"
    "0 < unat (inputHeight ?st0)" "unat (inputHeight ?st0) \<le> 2 ^ 53"
    using assms(4-7) by simp_all
  obtain ls where main: "BottleNeck_main inSize width outSize strideWidth strideHeight ?st0 =
      Inr (ls, ?st0\<lparr>inputWidth := ?w, inputHeight := ?h\<rparr>)"
    using BottleNeck_main_small [OF assms(2,3) b0, of inSize width outSize] by simp
  let ?st2 = "?st0\<lparr>inputWidth := ?w, inputHeight := ?h\<rparr>"
  have "\<exists>rs. shortcut [Sequential ls] inSize ?out strideWidth strideHeight downSample ?st2 =
      Inr (rs, ?st2)"
  proof (cases downSample)
    case True
    have "shortcut [Sequential ls] inSize ?out strideWidth strideHeight True ?st2 =
      Inr ([Sequential ls] @ [Sequential [Convolution inSize ?out 1 1 strideWidth
             strideHeight 0 0 (downSampleInputWidth ?st2) (downSampleInputHeight ?st2),
             BatchNorm ?out]],
           ?st2\<lparr>inputWidth := (downSampleInputWidth ?st2 - 1) div strideWidth + 1,
                inputHeight := (downSampleInputHeight ?st2 - 1) div strideHeight + 1\<rparr>)"
      using assms(2-7) by (intro shortcut_small) simp_all
    with True show ?thesis by simp
  next
    case False
    then show ?thesis by (simp add: shortcut_def)
  qed
  then obtain rs where
    "shortcut [Sequential ls] inSize ?out strideWidth strideHeight downSample ?st2 =
      Inr (rs, ?st2)" ..
  with main width show ?thesis
    by (simp add: BottleNeck_def)
qed

section \<open>The output-size formula\<close>

text \<open>
  Claim C2, amended. For a stride \<open>s \<noteq> 0\<close> and a quotient \<open>(size - k + 2 * padding) div s\<close>,
  computed in 64-bit unsigned arithmetic, below \<open>2 ^ 53\<close>, \<open>ConvOutSize\<close> returns that
  quotient plus 1; when moreover \<open>k \<le> size + 2 * padding < 2 ^ 64\<close>, so that nothing wraps,
  the result is \<open>(size + 2 * padding - k) div s + 1\<close> over the natural numbers, the classic
  formula. \<open>ConvOutSize 224 7 2 3\<close> is 112.
\<close>

theorem ConvOutSize_formula:
  "(s \<noteq> 0 \<and> unat ((sz - k + 2 * padding) div s) < 2 ^ 53 \<longrightarrow>
      ConvOutSize sz k s padding = Inr ((sz - k + 2 * padding) div s + 1) \<and>
      (unat k \<le> unat sz + 2 * unat padding \<and> unat sz + 2 * unat padding < 2 ^ 64 \<longrightarrow>
         unat ((sz - k + 2 * padding) div s + 1) =
           (unat sz + 2 * unat padding - unat k) div unat s + 1)) \<and>
   ConvOutSize 224 7 2 3 = Inr 112"
proof (intro conjI impI)
  assume h: "s \<noteq> 0 \<and> unat ((sz - k + 2 * padding) div s) < 2 ^ 53"
  then show "ConvOutSize sz k s padding = Inr ((sz - k + 2 * padding) div s + 1)"
    by (simp add: ConvOutSize_exact)
  assume nowrap: "unat k \<le> unat sz + 2 * unat padding \<and> unat sz + 2 * unat padding < 2 ^ 64"
  let ?q = "(sz - k + 2 * padding) div s"
  have "unat ?q + 1 < 2 ^ 64"
    using h by simp
  then have "unat (?q + 1) = unat ?q + 1"
    by (simp add: unat_word_ariths)
  then show "unat (?q + 1) = (unat sz + 2 * unat padding - unat k) div unat s + 1"
    using nowrap by (simp add: unat_conv_quotient)
next
  show "ConvOutSize 224 7 2 3 = Inr 112"
    by (simp add: ConvOutSize_def to_double_def to_size_t_def)
qed

text \<open>The first convolution of the second stage, on a side of 56: the result is 28.\<close>

theorem ConvOutSize_formula_witness:
  "ConvOutSize 56 3 2 1 = Inr 28 \<and> unat (28 :: size_t) = (56 + 2 * 1 - 3) div 2 + 1"
  using ConvOutSize_formula [of 2 56 3 1] by simp

text \<open>
  The claim as stated, for all inputs, fails where the \<^verbatim>\<open>double\<close> on the way is not exact:
  for \<open>size = 2 ^ 53 + 1\<close>, \<open>k = 1\<close>, \<open>s = 1\<close>, \<open>padding = 0\<close> the quotient is \<open>2 ^ 53\<close>, the
  formula gives \<open>2 ^ 53 + 1\<close>, which no \<^verbatim>\<open>double\<close> holds, and the function returns \<open>2 ^ 53\<close>.
\<close>

theorem ConvOutSize_formula_counterexample:
  "ConvOutSize 9007199254740993 1 1 0 = Inr 9007199254740992 \<and>
   (9007199254740993 - 1 + 2 * 0) div 1 + 1 = (9007199254740993 :: size_t) \<and>
   (9007199254740992 :: size_t) \<noteq> 9007199254740993"
  by (simp add: ConvOutSize_def to_double_def to_size_t_def bit_length.simps Let_def)




section \<open>The stage builder\<close>

text \<open>
  Claim C1. \<open>MakeLayer block outSize numBlocks stride\<close> is one first block followed by a
  run of further blocks. The first block receives the given stride in both directions
  and the flag \<open>downSample = (stride \<noteq> 1 \<or> downSampleInSize \<noteq> outSize * expansion)\<close>, where the
  expansion is that of the block kind; the tracked in-channel count is then set to
  \<open>outSize * expansion\<close>; every further block is called with that count as its input maps,
  stride 1 and \<open>downSample = False\<close>. The number of further blocks is \<open>numBlocks - 1\<close> in
  \<^verbatim>\<open>size_t\<close>, which for \<open>numBlocks \<noteq> 0\<close> makes \<open>numBlocks\<close> blocks in all. A stage that
  returns leaves the tracked count at \<open>outSize * expansion\<close>.
\<close>

theorem MakeLayer_first_and_further_blocks:
  "(let expansion = (if block = ''basicblock'' then basicBlockExpansion
                     else bottleNeckExpansion);
        tracked = outSize * expansion;
        downSample = (stride \<noteq> 1 \<or> downSampleInSize st \<noteq> tracked)
    in MakeLayer block outSize numBlocks stride st =
         (case (if block = ''basicblock''
                then BasicBlock (downSampleInSize st) tracked stride stride downSample st
                else BottleNeck (downSampleInSize st) outSize stride stride downSample 64 1 st) of
            Inl f \<Rightarrow> Inl f
          | Inr st1 \<Rightarrow>
              repeat_blocks (unat (numBlocks - 1))
                (if block = ''basicblock''
                 then BasicBlock tracked outSize 1 1 False
                 else BottleNeck tracked outSize 1 1 False 64 1)
                (st1\<lparr>downSampleInSize := tracked\<rparr>)) \<and>
       (\<forall>st'. MakeLayer block outSize numBlocks stride st = Inr st' \<longrightarrow>
          downSampleInSize st' = tracked \<and>
          length (resNet st') = length (resNet st) + 1 + unat (numBlocks - 1)) \<and>
       (numBlocks \<noteq> 0 \<longrightarrow> 1 + unat (numBlocks - 1) = unat numBlocks))"
proof -
  have "numBlocks \<noteq> 0 \<longrightarrow> 1 + unat (numBlocks - 1) = unat numBlocks"
    by (simp add: unat_minus_one unat_gt_0)
  with MakeLayer_unfolded [of block outSize numBlocks stride st]
    MakeLayer_result [of block outSize numBlocks stride st]
  show ?thesis
    unfolding Let_def by blast
qed

text \<open>The second stage of the 18-layer network: two blocks, from 56 x 56 to 28 x 28.\<close>

theorem MakeLayer_first_and_further_blocks_witness:
  "\<exists>st'. MakeLayer ''basicblock'' 128 2 2 (initial 3 56 56 1000) = Inr st' \<and>
     inputWidth st' = 28 \<and> inputHeight st' = 28 \<and>
     downSampleInSize st' = 128 \<and> length (resNet st') = 2"
proof -
  let ?st = "initial 3 56 56 1000"
  have "\<exists>st'. MakeLayer ''basicblock'' 128 2 2 ?st = Inr st' \<and>
      inputWidth st' = (inputWidth ?st - 1) div 2 + 1 \<and>
      inputHeight st' = (inputHeight ?st - 1) div 2 + 1"
    by (rule MakeLayer_small) (simp_all add: initial_def)
  then obtain st' where r: "MakeLayer ''basicblock'' 128 2 2 ?st = Inr st'"
    "inputWidth st' = 28" "inputHeight st' = 28"
    by (auto simp: initial_def)
  from MakeLayer_first_and_further_blocks [of "''basicblock''" 128 2 ?st 2] r
  show ?thesis
    by (simp add: Let_def basicBlockExpansion_def initial_def)
qed

section \<open>The constructor's network\<close>



section \<open>The residual blocks\<close>

text \<open>
  Claim C5, amended. The truncation \<^verbatim>\<open>int(...)\<close> of the width is defined exactly when
  \<open>\<lfloor>baseWidth / 64 * outSize\<rfloor>\<close> is below \<open>2 ^ 31\<close>. Below that bound the width is
  \<open>\<lfloor>baseWidth / 64 * outSize\<rfloor> * groups\<close>, which is \<open>outSize\<close> for the defaults
  \<open>baseWidth = 64\<close> and \<open>groups = 1\<close>; the block is built for non-zero strides on a shape
  with sides from 1 to \<open>2 ^ 53\<close>; and a block that is built has a main path of a 1 x 1
  convolution to \<open>width\<close> maps, a 3 x 3 convolution with the given stride on \<open>width\<close> maps
  and a 1 x 1 convolution to \<open>outSize * 4\<close> maps, and a stage of bottleneck blocks leaves
  \<open>outSize * 4\<close> as the tracked in-channel count for the next stage.
\<close>

theorem BottleNeck_width_and_expansion:
  "(bottleNeckWidth baseWidth outSize groups = Inl ConversionOutOfRange \<longleftrightarrow>
      2 ^ 31 \<le> (unat baseWidth * unat outSize) div 64) \<and>
   ((unat baseWidth * unat outSize) div 64 < 2 ^ 31 \<longrightarrow>
      bottleNeckWidth baseWidth outSize groups =
        Inr (of_nat (nat \<lfloor>real (unat baseWidth) / 64 * real (unat outSize)\<rfloor>) * groups) \<and>
      (baseWidth = 64 \<and> groups = 1 \<longrightarrow>
         bottleNeckWidth baseWidth outSize groups = Inr outSize) \<and>
      (strideWidth \<noteq> 0 \<and> strideHeight \<noteq> 0 \<and>
       0 < unat (inputWidth st) \<and> unat (inputWidth st) \<le> 2 ^ 53 \<and>
       0 < unat (inputHeight st) \<and> unat (inputHeight st) \<le> 2 ^ 53 \<longrightarrow>
         (\<exists>st'. BottleNeck inSize outSize strideWidth strideHeight downSample baseWidth
                  groups st = Inr st')) \<and>
      (\<forall>st'. BottleNeck inSize outSize strideWidth strideHeight downSample baseWidth groups st
               = Inr st' \<longrightarrow>
         (\<exists>width w1 h1 w2 h2.
            width = of_nat (nat \<lfloor>real (unat baseWidth) / 64 * real (unat outSize)\<rfloor>) *
                    groups \<and>
            (baseWidth = 64 \<and> groups = 1 \<longrightarrow> width = outSize) \<and>
            bottleNeckExpansion = 4 \<and>
            ConvOutSize (inputWidth st) 1 1 0 = Inr w1 \<and>
            ConvOutSize (inputHeight st) 1 1 0 = Inr h1 \<and>
            ConvOutSize w1 3 strideWidth 1 = Inr w2 \<and>
            ConvOutSize h1 3 strideHeight 1 = Inr h2 \<and>
            resNet st' = resNet st @
              [Sequential
                [AddMerge True True
                  [Sequential
                    [Sequential [Convolution inSize width 1 1 1 1 0 0 (inputWidth st)
                                   (inputHeight st), BatchNorm width],
                     ReLULayer,
                     Sequential [Convolution width width 3 3 strideWidth strideHeight 1 1
                                   w1 h1, BatchNorm width],
                     ReLULayer,
                     Sequential [Convolution width (outSize * 4) 1 1 1 1 0 0 w2 h2,
                                 BatchNorm (outSize * 4)]],
                   (if downSample
                    then Sequential [Convolution inSize (outSize * 4) 1 1 strideWidth
                                       strideHeight 0 0 (inputWidth st) (inputHeight st),
                                     BatchNorm (outSize * 4)]
                    else IdentityLayer)],
                 ReLULayer]] \<and>
            (\<forall>block numBlocks stride s s'.
               block \<noteq> ''basicblock'' \<longrightarrow>
               MakeLayer block outSize numBlocks stride s = Inr s' \<longrightarrow>
               downSampleInSize s' = outSize * 4))))"
proof (intro conjI impI allI)
  show "bottleNeckWidth baseWidth outSize groups = Inl ConversionOutOfRange \<longleftrightarrow>
      2 ^ 31 \<le> (unat baseWidth * unat outSize) div 64"
    by (rule bottleNeckWidth_fault_iff)
next
  assume bound: "(unat baseWidth * unat outSize) div 64 < 2 ^ 31"
  have fl: "nat \<lfloor>real (unat baseWidth) / 64 * real (unat outSize)\<rfloor> =
      (unat baseWidth * unat outSize) div 64"
    by (simp only: floor_width nat_int)
  show w: "bottleNeckWidth baseWidth outSize groups =
        Inr (of_nat (nat \<lfloor>real (unat baseWidth) / 64 * real (unat outSize)\<rfloor>) * groups)"
    unfolding fl using bound by (simp add: bottleNeckWidth_Inr_iff)
  show "bottleNeckWidth baseWidth outSize groups = Inr outSize"
    if "baseWidth = 64 \<and> groups = 1"
    using that bound bottleNeckWidth_default [of outSize]
    by (auto simp: bottleNeckWidth_Inr_iff)
  show "\<exists>st'. BottleNeck inSize outSize strideWidth strideHeight downSample baseWidth
                  groups st = Inr st'"
    if "strideWidth \<noteq> 0 \<and> strideHeight \<noteq> 0 \<and>
       0 < unat (inputWidth st) \<and> unat (inputWidth st) \<le> 2 ^ 53 \<and>
       0 < unat (inputHeight st) \<and> unat (inputHeight st) \<le> 2 ^ 53"
    using that bound by (intro BottleNeck_built) simp_all
  show "\<exists>width w1 h1 w2 h2.
            width = of_nat (nat \<lfloor>real (unat baseWidth) / 64 * real (unat outSize)\<rfloor>) *
                    groups \<and>
            (baseWidth = 64 \<and> groups = 1 \<longrightarrow> width = outSize) \<and>
            bottleNeckExpansion = 4 \<and>
            ConvOutSize (inputWidth st) 1 1 0 = Inr w1 \<and>
            ConvOutSize (inputHeight st) 1 1 0 = Inr h1 \<and>
            ConvOutSize w1 3 strideWidth 1 = Inr w2 \<and>
            ConvOutSize h1 3 strideHeight 1 = Inr h2 \<and>
            resNet st' = resNet st @
              [Sequential
                [AddMerge True True
                  [Sequential
                    [Sequential [Convolution inSize width 1 1 1 1 0 0 (inputWidth st)
                                   (inputHeight st), BatchNorm width],
                     ReLULayer,
                     Sequential [Convolution width width 3 3 strideWidth strideHeight 1 1
                                   w1 h1, BatchNorm width],
                     ReLULayer,
                     Sequential [Convolution width (outSize * 4) 1 1 1 1 0 0 w2 h2,
                                 BatchNorm (outSize * 4)]],
                   (if downSample
                    then Sequential [Convolution inSize (outSize * 4) 1 1 strideWidth
                                       strideHeight 0 0 (inputWidth st) (inputHeight st),
                                     BatchNorm (outSize * 4)]
                    else IdentityLayer)],
                 ReLULayer]] \<and>
            (\<forall>block numBlocks stride s s'.
               block \<noteq> ''basicblock'' \<longrightarrow>
               MakeLayer block outSize numBlocks stride s = Inr s' \<longrightarrow>
               downSampleInSize s' = outSize * 4)"
    if "BottleNeck inSize outSize strideWidth strideHeight downSample baseWidth groups st
               = Inr st'" for st'
    using BottleNeck_built_structure [OF that] .
qed

text \<open>The first bottleneck block of the 50-layer network, on the 56 x 56 shape.\<close>

theorem BottleNeck_width_and_expansion_witness:
  "(unat (64 :: size_t) * unat (64 :: size_t)) div 64 < 2 ^ 31 \<and>
   bottleNeckWidth 64 64 1 = Inr 64 \<and>
   (\<exists>st'. BottleNeck 64 64 1 1 True 64 1 (initial 3 56 56 1000) = Inr st' \<and>
     resNet st' =
        [Sequential
          [AddMerge True True
            [Sequential
              [Sequential [Convolution 64 64 1 1 1 1 0 0 56 56, BatchNorm 64],
               ReLULayer,
               Sequential [Convolution 64 64 3 3 1 1 1 1 56 56, BatchNorm 64],
               ReLULayer,
               Sequential [Convolution 64 256 1 1 1 1 0 0 56 56, BatchNorm 256]],
             Sequential [Convolution 64 256 1 1 1 1 0 0 56 56, BatchNorm 256]],
           ReLULayer]])"
proof -
  have bound: "(unat (64 :: size_t) * unat (64 :: size_t)) div 64 < 2 ^ 31"
    by simp
  have c1: "ConvOutSize 56 1 1 0 = Inr 56" and c2: "ConvOutSize 56 3 1 1 = Inr 56"
    by (simp_all add: ConvOutSize_exact)
  note t = BottleNeck_width_and_expansion [where baseWidth = 64 and outSize = 64
      and groups = 1 and strideWidth = 1 and strideHeight = 1 and downSample = True
      and inSize = 64 and st = "initial 3 56 56 1000", THEN conjunct2, rule_format, OF bound]
  have w: "bottleNeckWidth 64 64 1 = Inr 64"
    using t [THEN conjunct2, THEN conjunct1] by simp
  have "\<exists>st'. BottleNeck 64 64 1 1 True 64 1 (initial 3 56 56 1000) = Inr st'"
    using t [THEN conjunct2, THEN conjunct2, THEN conjunct1] by (simp add: initial_def)
  then obtain st' where r: "BottleNeck 64 64 1 1 True 64 1 (initial 3 56 56 1000) = Inr st'" ..
  from t [THEN conjunct2, THEN conjunct2, THEN conjunct2, rule_format, OF r] r bound w
  show ?thesis
    by (auto simp: initial_def c1 c2)
qed

text \<open>
  The claim as stated, for every block, fails from the bound on: for the defaults and
  \<open>outSize = 2 ^ 31\<close> the product \<open>2 ^ 31\<close> does not fit an \<^verbatim>\<open>int\<close>, the conversion has no
  defined result, and the width is not \<open>outSize\<close>.
\<close>

theorem BottleNeck_width_and_expansion_counterexample:
  "bottleNeckWidth 64 2147483648 1 = Inl ConversionOutOfRange \<and>
   BottleNeck 64 2147483648 1 1 True 64 1 (initial 3 56 56 1000) = Inl ConversionOutOfRange \<and>
   bottleNeckWidth 64 2147483648 1 \<noteq> Inr 2147483648"
  by (simp add: bottleNeckWidth_def BottleNeck_def)

text \<open>
  Claim C6. A basic block that has been built has first copied the current shape into
  the two snapshot members, whatever \<open>downSample\<close> is, and has appended one unit to the
  top-level sequence: a merge of the main path (a convolution block from \<open>inSize\<close> to
  \<open>outSize\<close> with the given stride, an activation, a convolution block from \<open>outSize\<close> to
  \<open>outSize\<close> with stride 1) with the shortcut (for \<open>downSample\<close> a projection with kernel 1
  and padding 0, the given stride, on the shape before the block; otherwise the
  identity), followed by an activation.
\<close>

theorem BasicBlock_structure:
  assumes "BasicBlock inSize outSize strideWidth strideHeight downSample st = Inr st'"
  shows "\<exists>w1 h1.
      ConvOutSize (inputWidth st) 3 strideWidth 1 = Inr w1 \<and>
      ConvOutSize (inputHeight st) 3 strideHeight 1 = Inr h1 \<and>
      downSampleInputWidth st' = inputWidth st \<and>
      downSampleInputHeight st' = inputHeight st \<and>
      resNet st' = resNet st @
        [Sequential
          [AddMerge True True
            [Sequential
              [Sequential [Convolution inSize outSize 3 3 strideWidth strideHeight 1 1
                             (inputWidth st) (inputHeight st), BatchNorm outSize],
               ReLULayer,
               Sequential [Convolution outSize outSize 3 3 1 1 1 1 w1 h1, BatchNorm outSize]],
             (if downSample
              then Sequential [Convolution inSize outSize 1 1 strideWidth strideHeight 0 0
                                 (inputWidth st) (inputHeight st), BatchNorm outSize]
              else IdentityLayer)],
           ReLULayer]]"
proof -
  let ?st0 = "st\<lparr>downSampleInputWidth := inputWidth st,
                   downSampleInputHeight := inputHeight st\<rparr>"
  from assms obtain ls st2 rs st3 where
    main: "BasicBlock_main inSize outSize strideWidth strideHeight ?st0 = Inr (ls, st2)" and
    sc: "shortcut [Sequential ls] inSize outSize strideWidth strideHeight downSample st2
           = Inr (rs, st3)" and
    st': "st' = st3\<lparr>resNet := resNet st3 @ [Sequential [AddMerge True True rs, ReLULayer]]\<rparr>"
    unfolding BasicBlock_Inr_iff by blast
  from main obtain w1 h1 w2 h2 where
    w1: "ConvOutSize (inputWidth st) 3 strideWidth 1 = Inr w1" and
    h1: "ConvOutSize (inputHeight st) 3 strideHeight 1 = Inr h1" and
    ls: "ls = [Sequential [Convolution inSize outSize 3 3 strideWidth strideHeight 1 1
                          (inputWidth st) (inputHeight st), BatchNorm outSize],
            ReLULayer,
            Sequential [Convolution outSize outSize 3 3 1 1 1 1 w1 h1, BatchNorm outSize]]" and
    st2: "st2 = ?st0\<lparr>inputWidth := w2, inputHeight := h2\<rparr>"
    unfolding BasicBlock_main_Inr_iff by auto
  show ?thesis
  proof (cases downSample)
    case True
    with sc st2 obtain w h where
      "rs = [Sequential ls] @ [Sequential [Convolution inSize outSize 1 1 strideWidth
                        strideHeight 0 0 (inputWidth st) (inputHeight st),
                        BatchNorm outSize]]" and
      "st3 = st2\<lparr>inputWidth := w, inputHeight := h\<rparr>"
      unfolding shortcut_Inr_iff by auto
    with True w1 h1 ls st2 st' show ?thesis by simp
  next
    case False
    with sc have "rs = [Sequential ls] @ [IdentityLayer]" and "st3 = st2"
      unfolding shortcut_Inr_iff by auto
    with False w1 h1 ls st2 st' show ?thesis by simp
  qed
qed

text \<open>The first block of the 18-layer network's second stage.\<close>

theorem BasicBlock_structure_witness:
  "\<exists>st'. BasicBlock 64 128 2 2 True (initial 3 56 56 1000) = Inr st' \<and>
     downSampleInputWidth st' = 56 \<and> downSampleInputHeight st' = 56 \<and>
     resNet st' =
        [Sequential
          [AddMerge True True
            [Sequential
              [Sequential [Convolution 64 128 3 3 2 2 1 1 56 56, BatchNorm 128],
               ReLULayer,
               Sequential [Convolution 128 128 3 3 1 1 1 1 28 28, BatchNorm 128]],
             Sequential [Convolution 64 128 1 1 2 2 0 0 56 56, BatchNorm 128]],
           ReLULayer]]"
proof -
  have c1: "ConvOutSize 56 3 2 1 = Inr 28" and c2: "ConvOutSize 28 3 1 1 = Inr 28"
    and c3: "ConvOutSize 56 1 2 0 = Inr 28"
    by (simp_all add: ConvOutSize_exact)
  have "\<exists>st'. BasicBlock 64 128 2 2 True (initial 3 56 56 1000) = Inr st'"
    by (simp add: BasicBlock_def BasicBlock_main_def shortcut_def ConvolutionBlock_def
        initial_def c1 c2 c3)
  then obtain st' where r: "BasicBlock 64 128 2 2 True (initial 3 56 56 1000) = Inr st'" ..
  from BasicBlock_structure [OF r] r show ?thesis
    by (auto simp: initial_def c1)
qed




section \<open>Failures of the constructor\<close>

text \<open>
  Claim C8. For a version other than 18, 34, 50, 101 and 152 the constructor fails with
  \<open>UnsupportedVersionError\<close>, and no node has been emitted.
\<close>

theorem unsupported_version_fails:
  assumes "version \<notin> {18, 34, 50, 101, 152}"
  shows "ResNet_ctor version stemPad pool channels width height includeTop preTrained classes
           = Inl (UnsupportedVersionError, [])"
  using assms by (simp add: ResNet_ctor_def supportedVersions_def initial_def)

text \<open>Version 200.\<close>

theorem unsupported_version_fails_witness:
  "ResNet_ctor 200 3 (\<lambda>w. (w + 2 * 1 - 3) div 2 + 1) 3 224 224 True False 1000
     = Inl (UnsupportedVersionError, [])"
  using unsupported_version_fails [of 200] by simp

text \<open>
  Claim C9. With \<open>preTrained\<close> set and \<open>includeTop\<close> not set the constructor fails and no
  node has been emitted; for a supported version the failure is
  \<open>InvalidConfigurationError\<close>.
\<close>

theorem preTrained_requires_includeTop:
  assumes "preTrained" and "\<not> includeTop"
  shows "\<exists>e. ResNet_ctor version stemPad pool channels width height includeTop preTrained classes
               = Inl (e, []) \<and>
             (version \<in> {18, 34, 50, 101, 152} \<longrightarrow> e = InvalidConfigurationError)"
  using assms by (auto simp: ResNet_ctor_def supportedVersions_def initial_def Let_def)

text \<open>Version 50 without the head, pre-trained.\<close>

theorem preTrained_requires_includeTop_witness:
  "ResNet_ctor 50 3 (\<lambda>w. (w + 2 * 1 - 3) div 2 + 1) 3 224 224 False True 1000
     = Inl (InvalidConfigurationError, [])"
  using preTrained_requires_includeTop [of True False 50] by simp

end
